theory Spec2Isabelle
  imports Main
begin

section \<open>Data model (server/src/models)\<close>

text \<open>
  The Sequelize models \<open>User\<close>, \<open>Role\<close>, \<open>RolePermission\<close> and \<open>Enterprise\<close> as records.
  A \<open>DATE\<close> column is the number of milliseconds since the epoch (what JavaScript compares
  in a comparison of two \<open>Date\<close> objects); a nullable column is an \<open>option\<close>.  The primary key
  \<open>id\<close> of each model carries the model's initial, since HOL has one name space for the
  fields of all records; the surrogate key and the timestamps of \<open>RolePermission\<close> are read by
  none of the operations below and are left out.  A column with a \<open>defaultValue\<close> holds a
  value in every row.
\<close>

datatype json =
    JUndefined
  | JNull
  | JBool bool
  | JNum int
  | JStr string
  | JArr "json list"
  | JObj "(string \<times> json) list"

datatype user_status = active | inactive | locked

datatype enterprise_status = e_active | e_inactive

type_synonym date = int

record User =
  u_id :: int
  username :: string
  email :: string
  password_hash :: string
  first_name :: string
  last_name :: string
  u_status :: user_status
  login_attempts :: int
  locked_until :: "date option"
  last_login :: "date option"
  reset_password_token :: "string option"
  reset_password_expires :: "date option"
  u_role_id :: int
  u_enterprise_id :: int

record Role =
  r_id :: int
  r_name :: string
  r_description :: "string option"
  is_system_role :: bool

record RolePermission =
  rp_role_id :: int
  rp_module :: string
  can_create :: bool
  can_read :: bool
  can_update :: bool
  can_delete :: bool

record Enterprise =
  e_id :: int
  e_name :: string
  e_location :: "string option"
  e_contact_info :: json
  e_status :: enterprise_status

text \<open>The values of the \<open>ENUM\<close> column \<open>RolePermission.module\<close>.\<close>

definition MODULES :: "string list" where
  "MODULES = [''dashboard'', ''users'', ''roles'', ''enterprises'', ''employees'',
              ''products'', ''reports'']"

text \<open>The tables of the store.\<close>

record db =
  users :: "User list"
  roles :: "Role list"
  role_permissions :: "RolePermission list"
  enterprises :: "Enterprise list"

text \<open>
  A \<open>User\<close> instance as a query with \<open>include\<close> returns it: the role (\<open>as: 'role'\<close>) is
  \<open>null\<close> when no \<open>Role\<close> row has the user's \<open>role_id\<close>; the role's
  \<open>permissions\<close> and the user's \<open>enterprise\<close> are present only when the query included them.
\<close>

record loaded_role =
  role_row :: Role
  permissions :: "RolePermission list option"

record loaded_user =
  user_row :: User
  role :: "loaded_role option"
  enterprise :: "Enterprise option"

section \<open>HTTP responses and middleware outcomes\<close>

text \<open>\<open>res.status(s).json(b)\<close>; \<open>res.json(b)\<close> answers with status 200.\<close>

datatype response = Response (status: nat) (body: json)

datatype 'a outcome = Next 'a | Respond response

definition message :: "string \<Rightarrow> json" where
  "message m = JObj [(''message'', JStr m)]"

section \<open>The authorization guard (server/src/middleware/auth.js, \<open>authorize\<close>)\<close>

text \<open>JavaScript truthiness of the values a column can hold.\<close>

fun truthy :: "json \<Rightarrow> bool" where
  "truthy JUndefined = False"
| "truthy JNull = False"
| "truthy (JBool b) = b"
| "truthy (JNum n) = (n \<noteq> 0)"
| "truthy (JStr s) = (s \<noteq> [])"
| "truthy (JArr xs) = True"
| "truthy (JObj kvs) = True"

text \<open>
  Property access \<open>modulePermission[key]\<close> on a \<open>RolePermission\<close> instance: the value of the
  attribute of that name, \<open>undefined\<close> for any other key.
\<close>

definition get_prop :: "RolePermission \<Rightarrow> string \<Rightarrow> json" where
  "get_prop p key =
     (if key = ''role_id'' then JNum (rp_role_id p)
      else if key = ''module'' then JStr (rp_module p)
      else if key = ''can_create'' then JBool (can_create p)
      else if key = ''can_read'' then JBool (can_read p)
      else if key = ''can_update'' then JBool (can_update p)
      else if key = ''can_delete'' then JBool (can_delete p)
      else JUndefined)"

text \<open>\<open>xs || []\<close> for an association that may not have been loaded.\<close>

definition or_empty :: "'a list option \<Rightarrow> 'a list" where
  "or_empty xs = (case xs of None \<Rightarrow> [] | Some ys \<Rightarrow> ys)"

definition authorize :: "string \<Rightarrow> string \<Rightarrow> loaded_user option \<Rightarrow> unit outcome" where
  "authorize module action req_user =
     (case req_user of
        None \<Rightarrow> Respond (Response 403 (message ''Access denied: No role assigned''))
      | Some user \<Rightarrow>
          (case role user of
             None \<Rightarrow> Respond (Response 403 (message ''Access denied: No role assigned''))
           | Some r \<Rightarrow>
               if r_name (role_row r) = ''Super Admin'' then Next ()
               else
                 let perms = or_empty (permissions r) in
                 (case find (\<lambda>p. rp_module p = module) perms of
                    None \<Rightarrow>
                      Respond (Response 403
                        (message (''Access denied: No permissions for '' @ module @ '' module'')))
                  | Some modulePermission \<Rightarrow>
                      let permissionKey = ''can_'' @ action in
                      if \<not> truthy (get_prop modulePermission permissionKey)
                      then Respond (Response 403
                        (message (''Access denied: Cannot '' @ action @ '' '' @ module)))
                      else Next ())))"

text \<open>Whether a guard let the request through, and the status it answered with otherwise.\<close>

fun allowed :: "'a outcome \<Rightarrow> bool" where
  "allowed (Next x) = True"
| "allowed (Respond r) = False"

fun denied_with :: "nat \<Rightarrow> 'a outcome \<Rightarrow> bool" where
  "denied_with s (Next x) = False"
| "denied_with s (Respond r) = (status r = s)"

section \<open>External libraries, configuration and queries\<close>

text \<open>
  \<open>bcryptjs\<close> and \<open>jsonwebtoken\<close> are parameters of the model.  \<open>jwt.verify\<close> returns the
  decoded payload or throws; the middleware tells two error names apart and answers 500 to
  any other.
\<close>

record jwt_payload =
  userId :: int
  payload_email :: string

datatype jwt_error = TokenExpiredError | JsonWebTokenError | OtherJwtError

record lib =
  bcrypt_compare :: "string \<Rightarrow> string \<Rightarrow> bool"
  bcrypt_hash :: "string \<Rightarrow> int \<Rightarrow> string"
  jwt_sign :: "jwt_payload \<Rightarrow> string \<Rightarrow> string \<Rightarrow> string"
  jwt_verify :: "string \<Rightarrow> string \<Rightarrow> jwt_error + jwt_payload"

text \<open>
  \<open>process.env\<close>.  A numeric variable is held as the value \<open>parseInt\<close> computes from it,
  \<open>None\<close> for \<open>NaN\<close> (also when the variable is not set).
\<close>

record env =
  MAX_LOGIN_ATTEMPTS :: "int option"
  LOCKOUT_TIME :: "int option"
  BCRYPT_ROUNDS :: "int option"
  JWT_SECRET :: string
  JWT_EXPIRES_IN :: "string option"

text \<open>\<open>parseInt(v) || d\<close>: \<open>NaN\<close> and \<open>0\<close> are falsy.\<close>

definition or_default :: "int option \<Rightarrow> int \<Rightarrow> int" where
  "or_default v d = (case v of None \<Rightarrow> d | Some n \<Rightarrow> if n = 0 then d else n)"

text \<open>\<open>User.findOne({ where: { email } })\<close> and \<open>User.findByPk(id)\<close>.\<close>

definition findByEmail :: "db \<Rightarrow> string \<Rightarrow> User option" where
  "findByEmail d e = find (\<lambda>u. email u = e) (users d)"

definition findByPk :: "db \<Rightarrow> int \<Rightarrow> User option" where
  "findByPk d i = find (\<lambda>u. u_id u = i) (users d)"

text \<open>The associations of models/index.js, as the \<open>include\<close> option loads them.\<close>

definition include_role :: "db \<Rightarrow> bool \<Rightarrow> User \<Rightarrow> loaded_role option" where
  "include_role d with_permissions u =
     map_option
       (\<lambda>r. \<lparr>role_row = r,
              permissions =
                (if with_permissions
                 then Some (filter (\<lambda>p. rp_role_id p = r_id r) (role_permissions d))
                 else None)\<rparr>)
       (find (\<lambda>r. r_id r = u_role_id u) (roles d))"

definition include_enterprise :: "db \<Rightarrow> User \<Rightarrow> Enterprise option" where
  "include_enterprise d u = find (\<lambda>e. e_id e = u_enterprise_id u) (enterprises d)"

text \<open>
  A \<open>DataTypes.DATE\<close> attribute is a \<open>DATETIME\<close> column on the \<open>mysql\<close> dialect of the
  connection.  Sequelize writes a \<open>Date\<close> as \<open>YYYY-MM-DD HH:mm:ss\<close> in UTC, so the column
  keeps the whole second and the milliseconds are dropped.  The store rejects the statement
  when the value is outside the range of the column, 1000-01-01 00:00:00 to
  9999-12-31 23:59:59; a time beyond the range of \<open>Date\<close> is an invalid \<open>Date\<close>, which is
  rejected as well.
\<close>

definition DATETIME_MIN :: date where
  "DATETIME_MIN = - 30610224000000"

definition DATETIME_MAX :: date where
  "DATETIME_MAX = 253402300799999"

definition to_DATETIME :: "date \<Rightarrow> date option" where
  "to_DATETIME t =
     (if DATETIME_MIN \<le> t \<and> t \<le> DATETIME_MAX then Some (t div 1000 * 1000) else None)"

datatype db_error = DatabaseError | UniqueConstraintError

text \<open>
  The keys of the object passed to \<open>user.update(data)\<close>, with their values.  The \<open>UPDATE\<close>
  statement sets the columns named by the keys in the row with the instance's primary key;
  it is rejected as a whole when one of its values is.
\<close>

datatype user_field =
    Set_password_hash string
  | Set_login_attempts int
  | Set_locked_until "date option"
  | Set_last_login "date option"
  | Set_reset_password_token "string option"
  | Set_reset_password_expires "date option"

definition column_value :: "date option \<Rightarrow> db_error + date option" where
  "column_value v =
     (case v of
        None \<Rightarrow> Inr None
      | Some t \<Rightarrow> (case to_DATETIME t of None \<Rightarrow> Inl DatabaseError | Some t' \<Rightarrow> Inr (Some t')))"

fun apply_field :: "user_field \<Rightarrow> User \<Rightarrow> db_error + User" where
  "apply_field (Set_password_hash h) u = Inr (u\<lparr>password_hash := h\<rparr>)"
| "apply_field (Set_login_attempts n) u = Inr (u\<lparr>login_attempts := n\<rparr>)"
| "apply_field (Set_locked_until v) u =
     (case column_value v of Inl e \<Rightarrow> Inl e | Inr v' \<Rightarrow> Inr (u\<lparr>locked_until := v'\<rparr>))"
| "apply_field (Set_last_login v) u =
     (case column_value v of Inl e \<Rightarrow> Inl e | Inr v' \<Rightarrow> Inr (u\<lparr>last_login := v'\<rparr>))"
| "apply_field (Set_reset_password_token v) u = Inr (u\<lparr>reset_password_token := v\<rparr>)"
| "apply_field (Set_reset_password_expires v) u =
     (case column_value v of
        Inl e \<Rightarrow> Inl e
      | Inr v' \<Rightarrow> Inr (u\<lparr>reset_password_expires := v'\<rparr>))"

fun apply_fields :: "user_field list \<Rightarrow> User \<Rightarrow> db_error + User" where
  "apply_fields [] u = Inr u"
| "apply_fields (f # fs) u =
     (case apply_field f u of Inl e \<Rightarrow> Inl e | Inr u' \<Rightarrow> apply_fields fs u')"

definition replace_user :: "db \<Rightarrow> User \<Rightarrow> db" where
  "replace_user d u' = d\<lparr>users := map (\<lambda>u. if u_id u = u_id u' then u' else u) (users d)\<rparr>"

definition update_user :: "db \<Rightarrow> User \<Rightarrow> user_field list \<Rightarrow> db_error + db" where
  "update_user d u updateData =
     (case apply_fields updateData u of
        Inl e \<Rightarrow> Inl e
      | Inr u' \<Rightarrow> Inr (replace_user d u'))"

text \<open>Serialisation of the instances a response carries.\<close>

definition permission_json :: "RolePermission \<Rightarrow> json" where
  "permission_json p = JObj [(''role_id'', JNum (rp_role_id p)), (''module'', JStr (rp_module p)),
     (''can_create'', JBool (can_create p)), (''can_read'', JBool (can_read p)),
     (''can_update'', JBool (can_update p)), (''can_delete'', JBool (can_delete p))]"

definition role_json :: "loaded_role option \<Rightarrow> json" where
  "role_json lr =
     (case lr of
        None \<Rightarrow> JNull
      | Some r \<Rightarrow>
          JObj ([(''id'', JNum (r_id (role_row r))), (''name'', JStr (r_name (role_row r))),
                 (''description'',
                    case r_description (role_row r) of None \<Rightarrow> JNull | Some t \<Rightarrow> JStr t),
                 (''is_system_role'', JBool (is_system_role (role_row r)))]
                @ (case permissions r of
                     None \<Rightarrow> []
                   | Some ps \<Rightarrow> [(''permissions'', JArr (map permission_json ps))])))"

definition enterprise_json :: "Enterprise option \<Rightarrow> json" where
  "enterprise_json oe =
     (case oe of
        None \<Rightarrow> JNull
      | Some e \<Rightarrow>
          JObj [(''id'', JNum (e_id e)), (''name'', JStr (e_name e)),
                (''location'', case e_location e of None \<Rightarrow> JNull | Some t \<Rightarrow> JStr t),
                (''contact_info'', e_contact_info e),
                (''status'', JStr (case e_status e of e_active \<Rightarrow> ''active''
                                                    | e_inactive \<Rightarrow> ''inactive''))])"

section \<open>The authentication guard (server/src/middleware/auth.js, \<open>authenticateJWT\<close>)\<close>

text \<open>
  The argument is the \<open>Authorization\<close> header, \<open>None\<close> when the request has none.  On
  \<open>Next\<close> the outcome carries the instance stored in \<open>req.user\<close>.
\<close>

definition authenticateJWT :: "lib \<Rightarrow> env \<Rightarrow> db \<Rightarrow> string option \<Rightarrow> loaded_user outcome" where
  "authenticateJWT l ev d authorization =
     (case authorization of
        None \<Rightarrow> Respond (Response 401 (message ''Access token required''))
      | Some authHeader \<Rightarrow>
          if authHeader = [] \<or> take 7 authHeader \<noteq> ''Bearer ''
          then Respond (Response 401 (message ''Access token required''))
          else
            let token = drop 7 authHeader in
            (case jwt_verify l token (JWT_SECRET ev) of
               Inl TokenExpiredError \<Rightarrow> Respond (Response 401 (message ''Token expired''))
             | Inl JsonWebTokenError \<Rightarrow> Respond (Response 401 (message ''Invalid token''))
             | Inl OtherJwtError \<Rightarrow> Respond (Response 500 (message ''Authentication error''))
             | Inr decoded \<Rightarrow>
                 (case findByPk d (userId decoded) of
                    None \<Rightarrow> Respond (Response 401 (message ''User not found''))
                  | Some u \<Rightarrow>
                      if u_status u = locked
                      then Respond (Response 423 (message ''Account is locked''))
                      else if u_status u = inactive
                      then Respond (Response 403 (message ''Account is inactive''))
                      else Next \<lparr>user_row = u, role = include_role d True u,
                                  enterprise = None\<rparr>)))"

section \<open>Login (server/src/routes/auth.js, \<open>POST /api/auth/login\<close>)\<close>

text \<open>
  The handler runs after the validators accepted the body.  \<open>t_check\<close> is the \<open>new Date()\<close>
  of the lock test, \<open>t_write\<close> the clock when the handler builds its update
  (\<open>Date.now()\<close> after a failed comparison, \<open>new Date()\<close> after a successful one).  Besides
  the response and the store the model returns the calls the handler made, in order.  The
  \<open>catch\<close> block answers 500 when the store rejects the update.
\<close>

datatype call = Compare | Update | Sign

record login_result =
  resp :: response
  store :: db
  calls :: "call list"

text \<open>
  \<open>parseInt(process.env.MAX_LOGIN_ATTEMPTS) || 5\<close> and
  \<open>parseInt(process.env.LOCKOUT_TIME) || 900000\<close> (milliseconds).
\<close>

definition maxAttempts :: "env \<Rightarrow> int" where
  "maxAttempts ev = or_default (MAX_LOGIN_ATTEMPTS ev) 5"

definition lockoutTime :: "env \<Rightarrow> int" where
  "lockoutTime ev = or_default (LOCKOUT_TIME ev) 900000"

text \<open>
  \<open>jwt.sign({ userId: user.id, email: user.email }, process.env.JWT_SECRET,
  { expiresIn: process.env.JWT_EXPIRES_IN || '7d' })\<close>.
\<close>

definition session_token :: "lib \<Rightarrow> env \<Rightarrow> User \<Rightarrow> string" where
  "session_token l ev u =
     jwt_sign l \<lparr>userId = u_id u, payload_email = email u\<rparr> (JWT_SECRET ev)
       (case JWT_EXPIRES_IN ev of None \<Rightarrow> ''7d'' | Some x \<Rightarrow> if x = [] then ''7d'' else x)"

text \<open>\<open>user.locked_until && user.locked_until > new Date()\<close>.\<close>

definition lock_active :: "User \<Rightarrow> date \<Rightarrow> bool" where
  "lock_active u t = (case locked_until u of None \<Rightarrow> False | Some l \<Rightarrow> l > t)"

definition login :: "lib \<Rightarrow> env \<Rightarrow> date \<Rightarrow> date \<Rightarrow> db \<Rightarrow> string \<Rightarrow> string \<Rightarrow> login_result" where
  "login l ev t_check t_write d em password =
     (case findByEmail d em of
        None \<Rightarrow>
          \<lparr>resp = Response 401 (message ''Invalid credentials''), store = d, calls = []\<rparr>
      | Some u \<Rightarrow>
          if lock_active u t_check
          then \<lparr>resp = Response 423 (message ''Account is temporarily locked''),
                store = d, calls = []\<rparr>
          else if \<not> bcrypt_compare l password (password_hash u)
          then
            let loginAttempts = login_attempts u + 1;
                updateData =
                  [Set_login_attempts loginAttempts] @
                  (if loginAttempts \<ge> maxAttempts ev
                   then [Set_locked_until (Some (t_write + lockoutTime ev))]
                   else [])
            in (case update_user d u updateData of
                  Inl error \<Rightarrow>
                    \<lparr>resp = Response 500 (message ''Internal server error''),
                     store = d, calls = [Compare, Update]\<rparr>
                | Inr d' \<Rightarrow>
                    \<lparr>resp = Response 401 (message ''Invalid credentials''),
                     store = d', calls = [Compare, Update]\<rparr>)
          else
            (case update_user d u
                    [Set_login_attempts 0, Set_locked_until None, Set_last_login (Some t_write)] of
               Inl error \<Rightarrow>
                 \<lparr>resp = Response 500 (message ''Internal server error''),
                  store = d, calls = [Compare, Update]\<rparr>
             | Inr d' \<Rightarrow>
                 let token = session_token l ev u
                 in \<lparr>resp = Response 200
                       (JObj [(''message'', JStr ''Login successful''),
                              (''token'', JStr token),
                              (''user'', JObj [(''id'', JNum (u_id u)),
                                               (''username'', JStr (username u)),
                                               (''email'', JStr (email u)),
                                               (''first_name'', JStr (first_name u)),
                                               (''last_name'', JStr (last_name u)),
                                               (''role'', role_json (include_role d False u)),
                                               (''enterprise'',
                                                  enterprise_json (include_enterprise d u))])]),
                     store = d', calls = [Compare, Update, Sign]\<rparr>))"

section \<open>Password reset (server/src/routes/auth.js)\<close>

text \<open>
  \<open>POST /api/auth/reset-password\<close>.  \<open>resetToken\<close> is the value of
  \<open>crypto.randomBytes(32).toString('hex')\<close>, \<open>now\<close> the value of \<open>Date.now()\<close>.
\<close>

definition reset_password_request :: "date \<Rightarrow> string \<Rightarrow> db \<Rightarrow> string \<Rightarrow> response \<times> db" where
  "reset_password_request now resetToken d em =
     (case findByEmail d em of
        None \<Rightarrow>
          (Response 200 (message ''If the email exists, a reset link has been sent''), d)
      | Some u \<Rightarrow>
          let resetExpires = now + 3600000 in
          (case update_user d u [Set_reset_password_token (Some resetToken),
                                 Set_reset_password_expires (Some resetExpires)] of
             Inl error \<Rightarrow> (Response 500 (message ''Internal server error''), d)
           | Inr d' \<Rightarrow>
               (Response 200 (JObj [(''message'', JStr ''Password reset token generated''),
                                    (''resetToken'', JStr resetToken)]),
                d')))"

text \<open>
  The identifiers that routes/auth.js binds at module level: the names of its \<open>import\<close>
  declarations and its \<open>router\<close>.  An identifier that is neither bound in the module, nor
  local to the handler, nor a global of the runtime throws a \<open>ReferenceError\<close> when the
  expression that mentions it is evaluated.
\<close>

definition auth_js_bindings :: "string list" where
  "auth_js_bindings = [''express'', ''bcrypt'', ''jwt'', ''crypto'', ''body'', ''User'', ''Role'',
     ''Enterprise'', ''handleValidationErrors'', ''authenticateJWT'', ''router'']"

text \<open>The module-level bindings of routes/roles.js, which imports \<open>Op\<close> from sequelize.\<close>

definition roles_js_bindings :: "string list" where
  "roles_js_bindings = [''express'', ''Op'', ''Role'', ''RolePermission'', ''User'',
     ''authenticateJWT'', ''authorize'', ''validateRole'', ''validatePagination'', ''validateId'',
     ''router'']"

datatype js_error = ReferenceError string

definition resolve :: "string list \<Rightarrow> string \<Rightarrow> js_error + unit" where
  "resolve bindings x = (if x \<in> set bindings then Inr () else Inl (ReferenceError x))"

text \<open>
  The row the query of the confirm handler selects: the stored token equals the supplied one
  and the stored expiry is greater than \<open>now\<close> (a comparison with \<open>NULL\<close> selects nothing).
\<close>

definition reset_token_valid :: "string \<Rightarrow> date \<Rightarrow> User \<Rightarrow> bool" where
  "reset_token_valid token now u =
     (reset_password_token u = Some token \<and>
      (case reset_password_expires u of None \<Rightarrow> False | Some e \<Rightarrow> e > now))"

text \<open>
  The body of the handler of \<open>POST /api/auth/reset-password/:token\<close> in a module with the
  given bindings.  Building the \<open>where\<close> clause evaluates \<open>Op.gt\<close>; the \<open>catch\<close> block answers
  500 to whatever the \<open>try\<close> block throws.
\<close>

definition reset_password_confirm_in ::
    "string list \<Rightarrow> lib \<Rightarrow> env \<Rightarrow> date \<Rightarrow> db \<Rightarrow> string \<Rightarrow> string \<Rightarrow> response \<times> db" where
  "reset_password_confirm_in bindings l ev now d token password =
     (case resolve bindings ''Op'' of
        Inl error \<Rightarrow> (Response 500 (message ''Internal server error''), d)
      | Inr ok \<Rightarrow>
          (case find (reset_token_valid token now) (users d) of
             None \<Rightarrow> (Response 400 (message ''Invalid or expired reset token''), d)
           | Some u \<Rightarrow>
               let hashedPassword = bcrypt_hash l password (or_default (BCRYPT_ROUNDS ev) 12) in
               (case update_user d u [Set_password_hash hashedPassword,
                                      Set_reset_password_token None,
                                      Set_reset_password_expires None,
                                      Set_login_attempts 0,
                                      Set_locked_until None] of
                  Inl error \<Rightarrow> (Response 500 (message ''Internal server error''), d)
                | Inr d' \<Rightarrow> (Response 200 (message ''Password reset successful''), d'))))"

text \<open>The handler as routes/auth.js defines it.\<close>

definition reset_password_confirm :: "lib \<Rightarrow> env \<Rightarrow> date \<Rightarrow> db \<Rightarrow> string \<Rightarrow> string \<Rightarrow> response \<times> db" where
  "reset_password_confirm = reset_password_confirm_in auth_js_bindings"

section \<open>Replacing a role's permissions (server/src/routes/roles.js)\<close>

text \<open>
  \<open>RolePermission.destroy({ where: { role_id } })\<close>, and \<open>RolePermission.bulkCreate\<close>, which
  sends one \<open>INSERT\<close> statement for all rows: the store rejects the statement as a whole when
  a row's module is not a value of the \<open>ENUM\<close> column, or when two of the rows, or one of
  them and a stored row, share \<open>(role_id, module)\<close>, the unique index of the table.
\<close>

definition destroy_permissions :: "int \<Rightarrow> RolePermission list \<Rightarrow> RolePermission list" where
  "destroy_permissions rid table = filter (\<lambda>p. rp_role_id p \<noteq> rid) table"

definition bulkCreate :: "RolePermission list \<Rightarrow> RolePermission list \<Rightarrow> db_error + RolePermission list" where
  "bulkCreate rows table =
     (if \<exists>p\<in>set rows. rp_module p \<notin> set MODULES then Inl DatabaseError
      else if \<not> distinct (map (\<lambda>p. (rp_role_id p, rp_module p)) rows) \<or>
              (\<exists>p\<in>set rows. \<exists>q\<in>set table.
                 rp_role_id p = rp_role_id q \<and> rp_module p = rp_module q)
      then Inl UniqueConstraintError
      else Inr (table @ rows))"

text \<open>The rows of a role, as \<open>include: [{ model: RolePermission, as: 'permissions' }]\<close> loads them.\<close>

definition permissions_of :: "db \<Rightarrow> int \<Rightarrow> RolePermission list" where
  "permissions_of d rid = filter (\<lambda>p. rp_role_id p = rid) (role_permissions d)"

text \<open>
  \<open>PUT /api/roles/:id/permissions\<close>, after the guards and \<open>validateId\<close>.  \<open>perms\<close> is
  \<open>req.body.permissions\<close>, \<open>None\<close> when it is absent or not an array; each element is spread
  into a row whose \<open>role_id\<close> is then set to the role's.  No statement of the handler runs in
  a transaction.
\<close>

definition update_role_permissions ::
    "db \<Rightarrow> int \<Rightarrow> RolePermission list option \<Rightarrow> response \<times> db" where
  "update_role_permissions d rid perms =
     (case find (\<lambda>r. r_id r = rid) (roles d) of
        None \<Rightarrow> (Response 404 (message ''Role not found''), d)
      | Some r \<Rightarrow>
          if is_system_role r
          then (Response 403 (message ''Cannot modify system role permissions''), d)
          else
            let d1 = d\<lparr>role_permissions := destroy_permissions (r_id r) (role_permissions d)\<rparr>;
                created =
                  (case perms of
                     None \<Rightarrow> Inr (role_permissions d1)
                   | Some ps \<Rightarrow>
                       let permissionData = map (\<lambda>perm. perm\<lparr>rp_role_id := r_id r\<rparr>) ps
                       in bulkCreate permissionData (role_permissions d1))
            in (case created of
                  Inl error \<Rightarrow> (Response 500 (message ''Internal server error''), d1)
                | Inr table \<Rightarrow>
                    let d2 = d1\<lparr>role_permissions := table\<rparr> in
                    (Response 200
                       (JObj [(''message'', JStr ''Role permissions updated successfully''),
                              (''role'', role_json (Some \<lparr>role_row = r,
                                   permissions = Some (permissions_of d2 (r_id r))\<rparr>))]),
                     d2)))"

section \<open>Consecutive login requests\<close>

text \<open>
  The store after a sequence of login requests for one email, each given by the two clock
  readings of its handler and the submitted password.
\<close>

definition run_logins :: "lib \<Rightarrow> env \<Rightarrow> db \<Rightarrow> string \<Rightarrow> (date \<times> date \<times> string) list \<Rightarrow> db" where
  "run_logins l ev d em reqs =
     foldl (\<lambda>d' (t_check, t_write, password). store (login l ev t_check t_write d' em password))
       d reqs"

text \<open>The store with the \<open>status\<close> column of the user with primary key \<open>i\<close> set to \<open>s\<close>.\<close>

definition set_status :: "int \<Rightarrow> user_status \<Rightarrow> db \<Rightarrow> db" where
  "set_status i s d = d\<lparr>users := map (\<lambda>u. if u_id u = i then u\<lparr>u_status := s\<rparr> else u) (users d)\<rparr>"

section \<open>Sample data\<close>

text \<open>
  Rows of the seed script (server/src/database/seed.js): the roles, the permission rows of
  the roles \<open>Manager\<close> and \<open>User\<close>, the default enterprise and three of the users.
\<close>

definition seed_super_admin_role :: Role where
  "seed_super_admin_role = \<lparr>r_id = 1, r_name = ''Super Admin'',
     r_description = Some ''Full system access with all permissions'', is_system_role = True\<rparr>"

definition seed_admin_role :: Role where
  "seed_admin_role = \<lparr>r_id = 2, r_name = ''Admin'',
     r_description = Some ''Full access within enterprise scope'', is_system_role = False\<rparr>"

definition seed_manager_role :: Role where
  "seed_manager_role = \<lparr>r_id = 3, r_name = ''Manager'',
     r_description = Some ''Manage employees and view reports'', is_system_role = False\<rparr>"

definition seed_user_role :: Role where
  "seed_user_role = \<lparr>r_id = 4, r_name = ''User'',
     r_description = Some ''Basic access to assigned modules'', is_system_role = False\<rparr>"

definition manager_permission :: "string \<Rightarrow> RolePermission" where
  "manager_permission m = \<lparr>rp_role_id = 3, rp_module = m,
     can_create = (m \<in> {''employees'', ''products''}), can_read = True,
     can_update = (m \<in> {''employees'', ''products''}), can_delete = False\<rparr>"

definition seed_user_dashboard :: RolePermission where
  "seed_user_dashboard = \<lparr>rp_role_id = 4, rp_module = ''dashboard'', can_create = False,
     can_read = True, can_update = False, can_delete = False\<rparr>"

definition seed_enterprise :: Enterprise where
  "seed_enterprise = \<lparr>e_id = 1, e_name = ''Default Enterprise'',
     e_location = Some ''San Francisco, CA'',
     e_contact_info = JObj [(''email'', JStr ''admin@default-enterprise.com'')],
     e_status = e_active\<rparr>"

definition seed_user :: "int \<Rightarrow> string \<Rightarrow> string \<Rightarrow> string \<Rightarrow> string \<Rightarrow> int \<Rightarrow> User" where
  "seed_user i uname em fname lname rid = \<lparr>u_id = i, username = uname, email = em,
     password_hash = ''bcrypt(admin123!)'', first_name = fname, last_name = lname,
     u_status = active, login_attempts = 0, locked_until = None, last_login = None,
     reset_password_token = None, reset_password_expires = None,
     u_role_id = rid, u_enterprise_id = 1\<rparr>"

definition seed_super_admin :: User where
  "seed_super_admin = seed_user 1 ''superadmin'' ''superadmin@system.com'' ''Super'' ''Administrator'' 1"

definition seed_manager :: User where
  "seed_manager = seed_user 3 ''manager'' ''manager@default-enterprise.com'' ''Jane'' ''Manager'' 3"

definition seed_regular_user :: User where
  "seed_regular_user = seed_user 4 ''user'' ''user@default-enterprise.com'' ''Bob'' ''User'' 4"

definition sample_db :: db where
  "sample_db = \<lparr>users = [seed_super_admin, seed_manager, seed_regular_user],
     roles = [seed_super_admin_role, seed_admin_role, seed_manager_role, seed_user_role],
     role_permissions = [manager_permission ''dashboard'', manager_permission ''employees'',
        manager_permission ''products'', manager_permission ''reports'', seed_user_dashboard],
     enterprises = [seed_enterprise]\<rparr>"

definition seed_regular_principal :: loaded_user where
  "seed_regular_principal = \<lparr>user_row = seed_regular_user,
     role = Some \<lparr>role_row = seed_user_role, permissions = Some [seed_user_dashboard]\<rparr>,
     enterprise = None\<rparr>"

definition seed_super_admin_principal :: loaded_user where
  "seed_super_admin_principal = \<lparr>user_row = seed_super_admin,
     role = Some \<lparr>role_row = seed_super_admin_role, permissions = Some []\<rparr>,
     enterprise = None\<rparr>"

text \<open>
  Stand-ins for the libraries on the sample data: a digest that shows its plaintext, and a
  token that shows the primary key it was signed for.
\<close>

definition sample_lib :: lib where
  "sample_lib = \<lparr>
     bcrypt_compare = (\<lambda>password digest. digest = ''bcrypt('' @ password @ '')''),
     bcrypt_hash = (\<lambda>password rounds. ''bcrypt('' @ password @ '')''),
     jwt_sign = (\<lambda>payload secret expiresIn.
        if userId payload = 4 then ''jwt-4'' else ''jwt-other''),
     jwt_verify = (\<lambda>token secret.
        if token = ''jwt-4''
        then Inr \<lparr>userId = 4, payload_email = ''user@default-enterprise.com''\<rparr>
        else Inl JsonWebTokenError)\<rparr>"

text \<open>
  A signing scheme that can be verified: the token spells the primary key in unary after
  its sign, then the email; verification reads both back.
\<close>

definition codec_sign :: "jwt_payload \<Rightarrow> string \<Rightarrow> string \<Rightarrow> string" where
  "codec_sign payload secret expiresIn =
     (if userId payload < 0 then CHR ''-'' else CHR ''+'') #
     replicate (nat \<bar>userId payload\<bar>) CHR ''1'' @ CHR ''.'' # payload_email payload"

definition codec_verify :: "string \<Rightarrow> string \<Rightarrow> jwt_error + jwt_payload" where
  "codec_verify token secret =
     (case token of
        [] \<Rightarrow> Inl JsonWebTokenError
      | c # rest \<Rightarrow>
          (case dropWhile (\<lambda>x. x = CHR ''1'') rest of
             [] \<Rightarrow> Inl JsonWebTokenError
           | dot # em \<Rightarrow>
               if dot \<noteq> CHR ''.'' \<or> (c \<noteq> CHR ''-'' \<and> c \<noteq> CHR ''+'') then Inl JsonWebTokenError
               else Inr \<lparr>userId =
                           (if c = CHR ''-''
                            then - int (length (takeWhile (\<lambda>x. x = CHR ''1'') rest))
                            else int (length (takeWhile (\<lambda>x. x = CHR ''1'') rest))),
                         payload_email = em\<rparr>))"

definition codec_lib :: lib where
  "codec_lib = sample_lib\<lparr>jwt_sign := codec_sign, jwt_verify := codec_verify\<rparr>"

definition sample_env :: env where
  "sample_env = \<lparr>MAX_LOGIN_ATTEMPTS = Some 5, LOCKOUT_TIME = Some 900000,
     BCRYPT_ROUNDS = Some 12, JWT_SECRET = ''secret'', JWT_EXPIRES_IN = Some ''7d''\<rparr>"

text \<open>
  Five login requests with a wrong password, a second apart, and the email they are for.
  The handler of the last one builds its update 999 ms after its lock test.
\<close>

definition regular_email :: string where
  "regular_email = ''user@default-enterprise.com''"

definition five_failures :: "(date \<times> date \<times> string) list" where
  "five_failures = [(1000, 1001, ''wrong''), (2000, 2001, ''wrong''), (3000, 3001, ''wrong''),
                    (4000, 4001, ''wrong''), (5000, 5999, ''wrong'')]"

text \<open>The sample store after an administrator set the regular user's status to \<open>inactive\<close>.\<close>

definition suspended_db :: db where
  "suspended_db = set_status 4 inactive sample_db"

text \<open>
  A permission list that names the module \<open>users\<close> twice, and one that replaces the
  manager's rows by read access to the dashboard and to reports.
\<close>

definition users_read_only :: RolePermission where
  "users_read_only = \<lparr>rp_role_id = 0, rp_module = ''users'', can_create = False,
     can_read = True, can_update = False, can_delete = False\<rparr>"

definition duplicate_rows :: "RolePermission list" where
  "duplicate_rows = [users_read_only, users_read_only\<lparr>can_update := True\<rparr>]"

definition read_only_rows :: "RolePermission list" where
  "read_only_rows = [users_read_only\<lparr>rp_module := ''dashboard''\<rparr>,
                     users_read_only\<lparr>rp_module := ''reports''\<rparr>]"

text \<open>A reset token as \<open>crypto.randomBytes(32).toString('hex')\<close> produces it.\<close>

definition sample_reset_token :: string where
  "sample_reset_token = ''3f9a1c0e5b7d2a4468c1e0f9b3a7d5c2e4f60718293a4b5c6d7e8f9012345678''"

text \<open>The sample store after a reset request for the regular user at time 1000.\<close>

definition pending_reset_db :: db where
  "pending_reset_db = snd (reset_password_request 1000 sample_reset_token sample_db regular_email)"

section \<open>Properties of the authorization guard\<close>

lemma find_Some_row: "find P ps = Some x \<Longrightarrow> x \<in> set ps \<and> P x"
  by (induction ps) (simp_all split: if_splits)

lemma find_no_row: "(\<forall>p\<in>set ps. \<not> P p) \<Longrightarrow> find P ps = None"
  by (induction ps) simp_all

lemma find_unique_row:
  assumes "p \<in> set ps" and "P p" and "\<forall>q\<in>set ps. P q \<longrightarrow> q = p"
  shows "find P ps = Some p"
proof (cases "find P ps")
  case None
  then have "\<not> (\<exists>x. x \<in> set ps \<and> P x)" by (simp add: find_None_iff)
  with assms(1,2) show ?thesis by blast
next
  case (Some x)
  then have "x \<in> set ps \<and> P x" by (rule find_Some_row)
  with assms(3) have "x = p" by blast
  with Some show ?thesis by simp
qed

lemma authorize_row:
  assumes "role user = Some r" and "r_name (role_row r) \<noteq> ''Super Admin''"
    and "find (\<lambda>p. rp_module p = m) (or_empty (permissions r)) = Some row"
  shows "authorize m a (Some user) =
     (if truthy (get_prop row (''can_'' @ a)) then Next ()
      else Respond (Response 403 (message (''Access denied: Cannot '' @ a @ '' '' @ m))))"
  using assms by (simp add: authorize_def)

lemma authorize_no_row:
  assumes "role user = Some r" and "r_name (role_row r) \<noteq> ''Super Admin''"
    and "find (\<lambda>p. rp_module p = m) (or_empty (permissions r)) = None"
  shows "authorize m a (Some user) =
     Respond (Response 403 (message (''Access denied: No permissions for '' @ m @ '' module'')))"
  using assms by (simp add: authorize_def)

lemma get_prop_flags:
  "get_prop row ''can_create'' = JBool (can_create row)"
  "get_prop row ''can_read'' = JBool (can_read row)"
  "get_prop row ''can_update'' = JBool (can_update row)"
  "get_prop row ''can_delete'' = JBool (can_delete row)"
  by (simp_all add: get_prop_def)

lemma get_prop_unknown_action:
  assumes "a \<notin> {''create'', ''read'', ''update'', ''delete''}"
  shows "get_prop row (''can_'' @ a) = JUndefined"
  using assms by (simp add: get_prop_def)

text \<open>
  Claim C1.  For a principal whose role is not named \<open>Super Admin\<close>, \<open>authorize(module, action)\<close>
  answers 403 when the role has no permission row for the module; when the role has exactly
  one row for the module (the unique index on \<open>(role_id, module)\<close>), the guard lets the
  request through if and only if the row's flag for the action is true: \<open>can_create\<close> for
  \<open>create\<close>, \<open>can_read\<close> for \<open>read\<close>, \<open>can_update\<close> for \<open>update\<close>,
  \<open>can_delete\<close> for \<open>delete\<close>; a request that is not let through is answered with 403.
\<close>

theorem authorize_follows_permission_row:
  assumes "role user = Some r" and "r_name (role_row r) \<noteq> ''Super Admin''"
  shows "((\<forall>p\<in>set (or_empty (permissions r)). rp_module p \<noteq> m) \<longrightarrow>
            denied_with 403 (authorize m a (Some user)))
       \<and> (\<forall>row. row \<in> set (or_empty (permissions r)) \<and> rp_module row = m \<and>
              (\<forall>q\<in>set (or_empty (permissions r)). rp_module q = m \<longrightarrow> q = row) \<longrightarrow>
            allowed (authorize m ''create'' (Some user)) = can_create row \<and>
            allowed (authorize m ''read'' (Some user)) = can_read row \<and>
            allowed (authorize m ''update'' (Some user)) = can_update row \<and>
            allowed (authorize m ''delete'' (Some user)) = can_delete row \<and>
            (allowed (authorize m a (Some user)) \<or> denied_with 403 (authorize m a (Some user))))"
proof (intro conjI allI impI)
  assume "\<forall>p\<in>set (or_empty (permissions r)). rp_module p \<noteq> m"
  then have "find (\<lambda>p. rp_module p = m) (or_empty (permissions r)) = None"
    by (rule find_no_row)
  with assms show "denied_with 403 (authorize m a (Some user))"
    by (simp add: authorize_no_row)
next
  fix row
  assume row: "row \<in> set (or_empty (permissions r)) \<and> rp_module row = m \<and>
              (\<forall>q\<in>set (or_empty (permissions r)). rp_module q = m \<longrightarrow> q = row)"
  have f: "find (\<lambda>p. rp_module p = m) (or_empty (permissions r)) = Some row"
    by (rule find_unique_row [where P = "\<lambda>p. rp_module p = m",
          OF row [THEN conjunct1] row [THEN conjunct2, THEN conjunct1]
             row [THEN conjunct2, THEN conjunct2]])
  note eq = authorize_row [OF assms f]
  show "allowed (authorize m ''create'' (Some user)) = can_create row"
    by (simp add: eq get_prop_flags)
  show "allowed (authorize m ''read'' (Some user)) = can_read row"
    by (simp add: eq get_prop_flags)
  show "allowed (authorize m ''update'' (Some user)) = can_update row"
    by (simp add: eq get_prop_flags)
  show "allowed (authorize m ''delete'' (Some user)) = can_delete row"
    by (simp add: eq get_prop_flags)
  show "allowed (authorize m a (Some user)) \<or> denied_with 403 (authorize m a (Some user))"
    by (simp add: eq)
qed

text \<open>
  The scenario of the specification: the role \<open>User\<close> with the single row
  \<open>(dashboard, can_read = true)\<close> may read the dashboard, may not create on it, and may not
  read users.
\<close>

theorem authorize_follows_permission_row_witness:
  "role seed_regular_principal =
     Some \<lparr>role_row = seed_user_role, permissions = Some [seed_user_dashboard]\<rparr>
   \<and> r_name seed_user_role \<noteq> ''Super Admin''
   \<and> allowed (authorize ''dashboard'' ''read'' (Some seed_regular_principal))
   \<and> \<not> allowed (authorize ''dashboard'' ''create'' (Some seed_regular_principal))
   \<and> denied_with 403 (authorize ''users'' ''read'' (Some seed_regular_principal))"
proof -
  let ?r = "\<lparr>role_row = seed_user_role, permissions = Some [seed_user_dashboard]\<rparr>"
  have h1: "role seed_regular_principal = Some ?r"
    by (simp add: seed_regular_principal_def)
  have h2: "r_name (role_row ?r) \<noteq> ''Super Admin''"
    by (simp add: seed_user_role_def)
  have row: "seed_user_dashboard \<in> set (or_empty (permissions ?r)) \<and>
      rp_module seed_user_dashboard = ''dashboard'' \<and>
      (\<forall>q\<in>set (or_empty (permissions ?r)). rp_module q = ''dashboard'' \<longrightarrow> q = seed_user_dashboard)"
    by (simp add: or_empty_def seed_user_dashboard_def)
  have norow: "\<forall>p\<in>set (or_empty (permissions ?r)). rp_module p \<noteq> ''users''"
    by (simp add: or_empty_def seed_user_dashboard_def)
  note t1 = authorize_follows_permission_row [OF h1 h2, of "''dashboard''" "''read''",
      THEN conjunct2, THEN spec, THEN mp, OF row]
  note t2 = authorize_follows_permission_row [OF h1 h2, of "''users''" "''read''",
      THEN conjunct1, THEN mp, OF norow]
  have a: "allowed (authorize ''dashboard'' ''read'' (Some seed_regular_principal))"
    using t1 by (simp add: seed_user_dashboard_def)
  have b: "\<not> allowed (authorize ''dashboard'' ''create'' (Some seed_regular_principal))"
    using t1 by (simp add: seed_user_dashboard_def)
  from h1 h2 a b t2 show ?thesis by simp
qed

text \<open>
  Claim C2.  When the principal's role is named exactly \<open>Super Admin\<close>, \<open>authorize\<close> lets the
  request through for every module and every action, whatever permission rows the role has.
\<close>

theorem super_admin_always_allowed:
  assumes "role user = Some r" and "r_name (role_row r) = ''Super Admin''"
  shows "authorize m a (Some user) = Next ()"
  using assms by (simp add: authorize_def)

theorem super_admin_always_allowed_witness:
  "role seed_super_admin_principal =
     Some \<lparr>role_row = seed_super_admin_role, permissions = Some []\<rparr>
   \<and> r_name (role_row \<lparr>role_row = seed_super_admin_role, permissions = Some []\<rparr>) = ''Super Admin''
   \<and> authorize ''products'' ''delete'' (Some seed_super_admin_principal) = Next ()"
proof -
  let ?r = "\<lparr>role_row = seed_super_admin_role, permissions = Some []\<rparr>"
  have h1: "role seed_super_admin_principal = Some ?r"
    by (simp add: seed_super_admin_principal_def)
  have h2: "r_name (role_row ?r) = ''Super Admin''"
    by (simp add: seed_super_admin_role_def)
  from h1 h2 super_admin_always_allowed [OF h1 h2, of "''products''" "''delete''"]
  show ?thesis by (intro conjI)
qed

text \<open>The comparison of the role name is exact: \<open>super admin\<close> is an ordinary role.\<close>

lemma role_name_is_case_sensitive:
  "authorize ''products'' ''delete''
     (Some (seed_super_admin_principal\<lparr>role :=
        Some \<lparr>role_row = seed_super_admin_role\<lparr>r_name := ''super admin''\<rparr>,
              permissions = Some []\<rparr>\<rparr>))
   = Respond (Response 403 (message ''Access denied: No permissions for products module''))"
  by (simp add: authorize_def or_empty_def)

text \<open>
  Claim C9.  For a principal whose role is not named \<open>Super Admin\<close>, an action outside
  \<open>create\<close>, \<open>read\<close>, \<open>update\<close>, \<open>delete\<close> is answered with 403, since the key
  \<open>can_<action>\<close> names no attribute of the row and \<open>undefined\<close> is falsy; a module outside
  the values of the \<open>ENUM\<close> column is answered with 403, since no stored row has it.  The guard
  returns an outcome in every case: no branch throws.
\<close>

theorem unknown_action_or_module_denied:
  assumes "role user = Some r" and "r_name (role_row r) \<noteq> ''Super Admin''"
  shows "(a \<notin> {''create'', ''read'', ''update'', ''delete''} \<longrightarrow>
            denied_with 403 (authorize m a (Some user)))
       \<and> (m \<notin> set MODULES \<and> (\<forall>p\<in>set (or_empty (permissions r)). rp_module p \<in> set MODULES) \<longrightarrow>
            denied_with 403 (authorize m a (Some user)))"
proof (intro conjI impI)
  assume a: "a \<notin> {''create'', ''read'', ''update'', ''delete''}"
  show "denied_with 403 (authorize m a (Some user))"
  proof (cases "find (\<lambda>p. rp_module p = m) (or_empty (permissions r))")
    case None
    with assms show ?thesis by (simp add: authorize_no_row)
  next
    case (Some row)
    have "authorize m a (Some user) =
        Respond (Response 403 (message (''Access denied: Cannot '' @ a @ '' '' @ m)))"
      by (simp only: authorize_row [OF assms Some] get_prop_unknown_action [OF a] truthy.simps if_False)
    then show ?thesis by simp
  qed
next
  assume "m \<notin> set MODULES \<and> (\<forall>p\<in>set (or_empty (permissions r)). rp_module p \<in> set MODULES)"
  then have "\<forall>p\<in>set (or_empty (permissions r)). \<not> rp_module p = m"
    by auto
  then have "find (\<lambda>p. rp_module p = m) (or_empty (permissions r)) = None"
    by (rule find_no_row)
  with assms show "denied_with 403 (authorize m a (Some user))"
    by (simp add: authorize_no_row)
qed

theorem unknown_action_or_module_denied_witness:
  "role seed_regular_principal =
     Some \<lparr>role_row = seed_user_role, permissions = Some [seed_user_dashboard]\<rparr>
   \<and> r_name seed_user_role \<noteq> ''Super Admin''
   \<and> ''export'' \<notin> {''create'', ''read'', ''update'', ''delete''}
   \<and> ''billing'' \<notin> set MODULES
   \<and> rp_module seed_user_dashboard \<in> set MODULES
   \<and> denied_with 403 (authorize ''dashboard'' ''export'' (Some seed_regular_principal))
   \<and> denied_with 403 (authorize ''billing'' ''read'' (Some seed_regular_principal))"
proof -
  let ?r = "\<lparr>role_row = seed_user_role, permissions = Some [seed_user_dashboard]\<rparr>"
  have h1: "role seed_regular_principal = Some ?r"
    by (simp add: seed_regular_principal_def)
  have h2: "r_name (role_row ?r) \<noteq> ''Super Admin''"
    by (simp add: seed_user_role_def)
  have h3: "''export'' \<notin> {''create'', ''read'', ''update'', ''delete''}"
    by simp
  have h4: "''billing'' \<notin> set MODULES"
    by (simp add: MODULES_def)
  have h5: "rp_module seed_user_dashboard \<in> set MODULES"
    by (simp add: MODULES_def seed_user_dashboard_def)
  have h6: "''billing'' \<notin> set MODULES \<and>
      (\<forall>p\<in>set (or_empty (permissions ?r)). rp_module p \<in> set MODULES)"
    using h4 h5 by (simp add: or_empty_def)
  note t1 = unknown_action_or_module_denied [OF h1 h2, of "''export''" "''dashboard''",
      THEN conjunct1, THEN mp, OF h3]
  note t2 = unknown_action_or_module_denied [OF h1 h2, of "''read''" "''billing''",
      THEN conjunct2, THEN mp, OF h6]
  from h2 have h2': "r_name seed_user_role \<noteq> ''Super Admin''" by simp
  from h1 h2' h3 h4 h5 t1 t2 show ?thesis by (intro conjI)
qed

section \<open>Properties of the authentication guard\<close>

lemma authenticateJWT_verified:
  assumes "jwt_verify l token (JWT_SECRET ev) = Inr decoded"
  shows "authenticateJWT l ev d (Some (''Bearer '' @ token)) =
     (case findByPk d (userId decoded) of
        None \<Rightarrow> Respond (Response 401 (message ''User not found''))
      | Some u \<Rightarrow>
          if u_status u = locked then Respond (Response 423 (message ''Account is locked''))
          else if u_status u = inactive
          then Respond (Response 403 (message ''Account is inactive''))
          else Next \<lparr>user_row = u, role = include_role d True u, enterprise = None\<rparr>)"
  using assms by (simp add: authenticateJWT_def)




section \<open>Lookups and updates of the store\<close>

lemma find_map_replace:
  assumes "find P us = Some u" and "P u'" and "Q u"
  shows "find P (map (\<lambda>x. if Q x then u' else x) us) = Some u'"
  using assms by (induction us) (simp_all split: if_splits)

lemma find_map_first:
  assumes "x \<in> set us" and "Q x" and "Q u'"
  shows "find Q (map (\<lambda>x. if Q x then u' else x) us) = Some u'"
  using assms
proof (induction us)
  case Nil
  then show ?case by simp
next
  case (Cons a us)
  show ?case
  proof (cases "Q a")
    case True
    with Cons.prems show ?thesis by simp
  next
    case False
    with Cons.prems have "x \<in> set us" by (cases "x = a") simp_all
    with Cons False show ?thesis by simp
  qed
qed

lemma find_map_preserving:
  assumes "\<And>x. P (f x) = P x"
  shows "find P (map f us) = map_option f (find P us)"
  by (induction us) (simp_all add: assms)

lemma findByEmail_row: "findByEmail d em = Some u \<Longrightarrow> u \<in> set (users d) \<and> email u = em"
  unfolding findByEmail_def by (rule find_Some_row)

lemma findByEmail_replace_user:
  assumes "findByEmail d em = Some u" and "email u' = em" and "u_id u' = u_id u"
  shows "findByEmail (replace_user d u') em = Some u'"
proof -
  have "find (\<lambda>x. email x = em) (map (\<lambda>x. if u_id x = u_id u' then u' else x) (users d)) = Some u'"
    using assms by (intro find_map_replace [where u = u]) (simp_all add: findByEmail_def)
  then show ?thesis by (simp add: findByEmail_def replace_user_def)
qed

lemma findByPk_replace_user:
  assumes "u \<in> set (users d)" and "u_id u' = u_id u"
  shows "findByPk (replace_user d u') (u_id u) = Some u'"
proof -
  have "find (\<lambda>x. u_id x = u_id u') (map (\<lambda>x. if u_id x = u_id u' then u' else x) (users d)) = Some u'"
    using assms by (intro find_map_first [where x = u]) simp_all
  then show ?thesis using assms(2) by (simp add: findByPk_def replace_user_def)
qed

lemma update_user_counter:
  "update_user d u [Set_login_attempts n] = Inr (replace_user d (u\<lparr>login_attempts := n\<rparr>))"
  by (simp add: update_user_def)

lemma update_user_lock:
  assumes "to_DATETIME t = Some t'"
  shows "update_user d u [Set_login_attempts n, Set_locked_until (Some t)] =
           Inr (replace_user d (u\<lparr>login_attempts := n, locked_until := Some t'\<rparr>))"
  using assms by (simp add: update_user_def column_value_def)

lemma update_user_lock_rejected:
  assumes "to_DATETIME t = None"
  shows "update_user d u [Set_login_attempts n, Set_locked_until (Some t)] = Inl DatabaseError"
  using assms by (simp add: update_user_def column_value_def)

lemma update_user_success:
  assumes "to_DATETIME t = Some t'"
  shows "update_user d u [Set_login_attempts 0, Set_locked_until None, Set_last_login (Some t)] =
           Inr (replace_user d
                  (u\<lparr>login_attempts := 0, locked_until := None, last_login := Some t'\<rparr>))"
  using assms by (simp add: update_user_def column_value_def)

lemma update_user_reset_request:
  assumes "to_DATETIME t = Some t'"
  shows "update_user d u [Set_reset_password_token (Some token),
                          Set_reset_password_expires (Some t)] =
           Inr (replace_user d
                  (u\<lparr>reset_password_token := Some token, reset_password_expires := Some t'\<rparr>))"
  using assms by (simp add: update_user_def column_value_def)

lemma update_user_reset_confirm:
  "update_user d u [Set_password_hash h, Set_reset_password_token None,
                    Set_reset_password_expires None, Set_login_attempts 0,
                    Set_locked_until None] =
     Inr (replace_user d
            (u\<lparr>password_hash := h, reset_password_token := None,
               reset_password_expires := None, login_attempts := 0, locked_until := None\<rparr>))"
  by (simp add: update_user_def column_value_def)

section \<open>Properties of the login handler\<close>

subsection \<open>The branches\<close>

lemma login_locked:
  assumes "findByEmail d em = Some u" and "lock_active u t_check"
  shows "login l ev t_check t_write d em password =
     \<lparr>resp = Response 423 (message ''Account is temporarily locked''), store = d, calls = []\<rparr>"
  using assms by (simp add: login_def)

lemma login_failed_below:
  assumes "findByEmail d em = Some u" and "\<not> lock_active u t_check"
    and "\<not> bcrypt_compare l password (password_hash u)"
    and "login_attempts u + 1 < maxAttempts ev"
  shows "login l ev t_check t_write d em password =
     \<lparr>resp = Response 401 (message ''Invalid credentials''),
      store = replace_user d (u\<lparr>login_attempts := login_attempts u + 1\<rparr>),
      calls = [Compare, Update]\<rparr>"
  using assms by (simp add: login_def Let_def update_user_counter)

lemma login_failed_lock:
  assumes "findByEmail d em = Some u" and "\<not> lock_active u t_check"
    and "\<not> bcrypt_compare l password (password_hash u)"
    and "maxAttempts ev \<le> login_attempts u + 1"
    and "to_DATETIME (t_write + lockoutTime ev) = Some lock"
  shows "login l ev t_check t_write d em password =
     \<lparr>resp = Response 401 (message ''Invalid credentials''),
      store = replace_user d
                (u\<lparr>login_attempts := login_attempts u + 1, locked_until := Some lock\<rparr>),
      calls = [Compare, Update]\<rparr>"
  using assms by (simp add: login_def Let_def update_user_lock)

lemma login_failed_rejected:
  assumes "findByEmail d em = Some u" and "\<not> lock_active u t_check"
    and "\<not> bcrypt_compare l password (password_hash u)"
    and "maxAttempts ev \<le> login_attempts u + 1"
    and "to_DATETIME (t_write + lockoutTime ev) = None"
  shows "login l ev t_check t_write d em password =
     \<lparr>resp = Response 500 (message ''Internal server error''), store = d,
      calls = [Compare, Update]\<rparr>"
  using assms by (simp add: login_def Let_def update_user_lock_rejected)

lemma login_succeeded:
  assumes "findByEmail d em = Some u" and "\<not> lock_active u t_check"
    and "bcrypt_compare l password (password_hash u)"
    and "to_DATETIME t_write = Some seen"
  shows "store (login l ev t_check t_write d em password) =
           replace_user d (u\<lparr>login_attempts := 0, locked_until := None, last_login := Some seen\<rparr>)"
    and "calls (login l ev t_check t_write d em password) = [Compare, Update, Sign]"
    and "\<exists>summary. body (resp (login l ev t_check t_write d em password)) =
           JObj [(''message'', JStr ''Login successful''),
                 (''token'', JStr (session_token l ev u)), (''user'', summary)]"
    and "status (resp (login l ev t_check t_write d em password)) = 200"
  using assms by (simp_all add: login_def Let_def update_user_success)

lemma login_failed_below_row:
  assumes "findByEmail d em = Some u" and "\<not> lock_active u t_check"
    and "\<not> bcrypt_compare l password (password_hash u)"
    and "login_attempts u + 1 < maxAttempts ev"
  shows "findByEmail (store (login l ev t_check t_write d em password)) em =
     Some (u\<lparr>login_attempts := login_attempts u + 1\<rparr>)"
proof -
  have "email u = em" using findByEmail_row [OF assms(1)] by simp
  then show ?thesis
    unfolding login_failed_below [OF assms]
    using assms(1) by (simp add: findByEmail_replace_user)
qed

lemma login_failed_lock_row:
  assumes "findByEmail d em = Some u" and "\<not> lock_active u t_check"
    and "\<not> bcrypt_compare l password (password_hash u)"
    and "maxAttempts ev \<le> login_attempts u + 1"
    and "to_DATETIME (t_write + lockoutTime ev) = Some lock"
  shows "findByEmail (store (login l ev t_check t_write d em password)) em =
     Some (u\<lparr>login_attempts := login_attempts u + 1, locked_until := Some lock\<rparr>)"
proof -
  have "email u = em" using findByEmail_row [OF assms(1)] by simp
  then show ?thesis
    unfolding login_failed_lock [OF assms]
    using assms(1) by (simp add: findByEmail_replace_user)
qed

lemma login_succeeded_row:
  assumes "findByEmail d em = Some u" and "\<not> lock_active u t_check"
    and "bcrypt_compare l password (password_hash u)"
    and "to_DATETIME t_write = Some seen"
  shows "findByEmail (store (login l ev t_check t_write d em password)) em =
     Some (u\<lparr>login_attempts := 0, locked_until := None, last_login := Some seen\<rparr>)"
proof -
  have "email u = em" using findByEmail_row [OF assms(1)] by simp
  then show ?thesis
    unfolding login_succeeded(1) [OF assms]
    using assms(1) by (simp add: findByEmail_replace_user)
qed

lemma lock_active_after_lock:
  "lock_active (u\<lparr>login_attempts := c, locked_until := Some e\<rparr>) t \<longleftrightarrow> t < e"
  by (simp add: lock_active_def)

lemma lock_active_counter:
  "lock_active (u\<lparr>login_attempts := c\<rparr>) t = lock_active u t"
  by (simp add: lock_active_def)

subsection \<open>The sample data\<close>

lemma sample_findByEmail:
  "findByEmail sample_db regular_email = Some seed_regular_user"
  by (simp add: findByEmail_def sample_db_def regular_email_def seed_super_admin_def
      seed_manager_def seed_regular_user_def seed_user_def)

lemma sample_regular_user_fields:
  "login_attempts seed_regular_user = 0" "locked_until seed_regular_user = None"
  "password_hash seed_regular_user = ''bcrypt(admin123!)''"
  "u_id seed_regular_user = 4" "email seed_regular_user = regular_email"
  "u_status seed_regular_user = active"
  by (simp_all add: seed_regular_user_def seed_user_def regular_email_def)

lemma sample_config:
  "maxAttempts sample_env = 5" "lockoutTime sample_env = 900000"
  by (simp_all add: maxAttempts_def lockoutTime_def or_default_def sample_env_def)

lemma sample_wrong_password:
  "\<not> bcrypt_compare sample_lib ''wrong'' (password_hash seed_regular_user)"
  by (simp add: sample_lib_def sample_regular_user_fields)

lemma sample_right_password:
  "bcrypt_compare sample_lib ''admin123!'' (password_hash seed_regular_user)"
  by (simp add: sample_lib_def sample_regular_user_fields)

lemma five_failures_all_wrong:
  "\<forall>(t_check, t_write, password)\<in>set five_failures.
     \<not> bcrypt_compare sample_lib password (password_hash seed_regular_user)"
  using sample_wrong_password by (simp add: five_failures_def)

lemma five_failures_snoc:
  "five_failures = [(1000, 1001, ''wrong''), (2000, 2001, ''wrong''), (3000, 3001, ''wrong''),
                    (4000, 4001, ''wrong'')] @ [(5000, 5999, ''wrong'')]"
  by (simp add: five_failures_def)

lemma sample_times:
  "to_DATETIME 905999 = Some 905000" "to_DATETIME 1900250 = Some 1900000"
  "to_DATETIME 1000250 = Some 1000000" "to_DATETIME 905600 = Some 905000"
  "to_DATETIME 3601000 = Some 3601000"
  by (simp_all add: to_DATETIME_def DATETIME_MIN_def DATETIME_MAX_def)

subsection \<open>Consecutive failures\<close>

lemma run_logins_Nil: "run_logins l ev d em [] = d"
  by (simp add: run_logins_def)

lemma run_logins_Cons:
  "run_logins l ev d em ((t_check, t_write, password) # reqs) =
     run_logins l ev (store (login l ev t_check t_write d em password)) em reqs"
  by (simp add: run_logins_def)

lemma run_logins_snoc:
  "run_logins l ev d em (reqs @ [(t_check, t_write, password)]) =
     store (login l ev t_check t_write (run_logins l ev d em reqs) em password)"
  by (simp add: run_logins_def)

lemma run_logins_below_threshold:
  assumes "findByEmail d em = Some u" and "locked_until u = None"
    and "\<forall>(t_check, t_write, password)\<in>set reqs. \<not> bcrypt_compare l password (password_hash u)"
    and "login_attempts u + int (length reqs) < maxAttempts ev"
  shows "findByEmail (run_logins l ev d em reqs) em =
           Some (u\<lparr>login_attempts := login_attempts u + int (length reqs)\<rparr>)"
  using assms
proof (induction reqs arbitrary: d u)
  case Nil
  then show ?case by (simp add: run_logins_Nil)
next
  case (Cons req reqs)
  obtain t_check t_write password where req: "req = (t_check, t_write, password)"
    by (cases req) auto
  let ?u = "u\<lparr>login_attempts := login_attempts u + 1\<rparr>"
  let ?d = "store (login l ev t_check t_write d em password)"
  from Cons.prems(2) have nl: "\<not> lock_active u t_check"
    by (simp add: lock_active_def)
  from Cons.prems(3) req have wrong: "\<not> bcrypt_compare l password (password_hash u)"
    by simp
  from Cons.prems(4) have below: "login_attempts u + 1 < maxAttempts ev"
    by simp
  have "findByEmail ?d em = Some ?u"
    by (rule login_failed_below_row [OF Cons.prems(1) nl wrong below])
  moreover have "locked_until ?u = None"
    using Cons.prems(2) by simp
  moreover have "\<forall>(t_check, t_write, password)\<in>set reqs.
      \<not> bcrypt_compare l password (password_hash ?u)"
    using Cons.prems(3) by simp
  moreover have "login_attempts ?u + int (length reqs) < maxAttempts ev"
    using Cons.prems(4) by simp
  ultimately have "findByEmail (run_logins l ev ?d em reqs) em =
      Some (?u\<lparr>login_attempts := login_attempts ?u + int (length reqs)\<rparr>)"
    by (rule Cons.IH)
  then show ?case
    by (simp add: req run_logins_Cons add.assoc)
qed

lemma run_logins_reach_threshold:
  assumes found: "findByEmail d em = Some u"
    and fresh: "login_attempts u = 0" "locked_until u = None"
    and reqs: "reqs = earlier @ [(t_check, t_write, password)]"
    and len: "int (length reqs) = maxAttempts ev"
    and wrong: "\<forall>(t_check, t_write, password)\<in>set reqs.
                  \<not> bcrypt_compare l password (password_hash u)"
    and lock: "to_DATETIME (t_write + lockoutTime ev) = Some lock"
  shows "findByEmail (run_logins l ev d em reqs) em =
           Some (u\<lparr>login_attempts := maxAttempts ev, locked_until := Some lock\<rparr>)"
proof -
  let ?d = "run_logins l ev d em earlier"
  let ?u = "u\<lparr>login_attempts := int (length earlier)\<rparr>"
  have "findByEmail ?d em = Some (u\<lparr>login_attempts := login_attempts u + int (length earlier)\<rparr>)"
    using found fresh(2) wrong len reqs fresh(1)
    by (intro run_logins_below_threshold) simp_all
  then have f: "findByEmail ?d em = Some ?u"
    by (simp add: fresh(1))
  have nl: "\<not> lock_active ?u t_check"
    using fresh(2) by (simp add: lock_active_def)
  have w: "\<not> bcrypt_compare l password (password_hash ?u)"
    using wrong reqs by simp
  have th: "maxAttempts ev \<le> login_attempts ?u + 1"
    using len reqs by simp
  have "login_attempts ?u + 1 = maxAttempts ev"
    using len reqs by simp
  then show ?thesis
    using login_failed_lock_row [OF f nl w th lock]
    by (simp add: reqs run_logins_snoc)
qed

lemma locked_after_threshold_failures:
  assumes "findByEmail d em = Some u"
    and "login_attempts u = 0" and "locked_until u = None"
    and "int (length (earlier @ [(t_check, t_write, password)])) = maxAttempts ev"
    and "\<forall>(t0, t1, pw)\<in>set (earlier @ [(t_check, t_write, password)]).
           \<not> bcrypt_compare l pw (password_hash u)"
    and "to_DATETIME (t_write + lockoutTime ev) = Some lock"
    and "t < lock"
  shows "login l ev t t' (run_logins l ev d em (earlier @ [(t_check, t_write, password)])) em pw' =
     \<lparr>resp = Response 423 (message ''Account is temporarily locked''),
      store = run_logins l ev d em (earlier @ [(t_check, t_write, password)]), calls = []\<rparr>"
proof -
  let ?reqs = "earlier @ [(t_check, t_write, password)]"
  have f: "findByEmail (run_logins l ev d em ?reqs) em =
      Some (u\<lparr>login_attempts := maxAttempts ev, locked_until := Some lock\<rparr>)"
    using assms(1-6) by (intro run_logins_reach_threshold [where earlier = earlier]) simp_all
  have "lock_active (u\<lparr>login_attempts := maxAttempts ev, locked_until := Some lock\<rparr>) t"
    using assms(7) by (simp add: lock_active_after_lock)
  with f show ?thesis by (rule login_locked)
qed

lemma after_five_failures:
  "findByEmail (run_logins sample_lib sample_env sample_db regular_email five_failures)
     regular_email =
   Some (seed_regular_user\<lparr>login_attempts := 5, locked_until := Some 905000\<rparr>)"
proof -
  have len: "int (length five_failures) = maxAttempts sample_env"
    by (simp add: five_failures_def sample_config)
  have lock: "to_DATETIME (5999 + lockoutTime sample_env) = Some 905000"
    by (simp add: sample_config sample_times)
  from run_logins_reach_threshold [OF sample_findByEmail sample_regular_user_fields(1,2)
      five_failures_snoc len five_failures_all_wrong lock]
  show ?thesis by (simp add: sample_config)
qed

subsection \<open>A successful login\<close>

text \<open>
  Claim C8, as stated, fails in one point: \<open>last_login\<close> is a \<open>DATETIME\<close> column, so the
  row keeps the whole second of the current time, not the current time.  A login that
  succeeds at 1000250 ms, on an account with five failed attempts and an expired lock, sets
  the counter to 0 and the lock to \<open>null\<close> and stores 1000000 as \<open>last_login\<close>.
\<close>

theorem last_login_keeps_whole_seconds:
  "findByEmail (run_logins sample_lib sample_env sample_db regular_email five_failures)
     regular_email =
     Some (seed_regular_user\<lparr>login_attempts := 5, locked_until := Some 905000\<rparr>)
   \<and> status (resp (login sample_lib sample_env 1000000 1000250
         (run_logins sample_lib sample_env sample_db regular_email five_failures)
         regular_email ''admin123!'')) = 200
   \<and> findByEmail (store (login sample_lib sample_env 1000000 1000250
         (run_logins sample_lib sample_env sample_db regular_email five_failures)
         regular_email ''admin123!'')) regular_email =
       Some (seed_regular_user\<lparr>login_attempts := 0, locked_until := None,
                                last_login := Some 1000000\<rparr>)
   \<and> last_login (seed_regular_user\<lparr>login_attempts := 0, locked_until := None,
                                   last_login := Some 1000000\<rparr>) \<noteq> Some 1000250"
proof -
  let ?u = "seed_regular_user\<lparr>login_attempts := 5, locked_until := Some 905000\<rparr>"
  have nl: "\<not> lock_active ?u 1000000"
    by (simp add: lock_active_def)
  have pw: "bcrypt_compare sample_lib ''admin123!'' (password_hash ?u)"
    using sample_right_password by simp
  have s: "status (resp (login sample_lib sample_env 1000000 1000250
         (run_logins sample_lib sample_env sample_db regular_email five_failures)
         regular_email ''admin123!'')) = 200"
    by (rule login_succeeded(4) [OF after_five_failures nl pw sample_times(3)])
  have r: "findByEmail (store (login sample_lib sample_env 1000000 1000250
         (run_logins sample_lib sample_env sample_db regular_email five_failures)
         regular_email ''admin123!'')) regular_email =
       Some (seed_regular_user\<lparr>login_attempts := 0, locked_until := None,
                                last_login := Some 1000000\<rparr>)"
    using login_succeeded_row [OF after_five_failures nl pw sample_times(3), of sample_env]
    by simp
  have n: "last_login (seed_regular_user\<lparr>login_attempts := 0, locked_until := None,
                                   last_login := Some 1000000\<rparr>) \<noteq> Some 1000250"
    by simp
  from after_five_failures s r n show ?thesis by (intro conjI)
qed

text \<open>
  Claim C8, amended.  When no lock is active and the password matches the stored hash (and
  the clock is within the range of the column), the handler answers 200 after it compared
  the password, updated the row and signed the token, in this order; the update sets
  \<open>login_attempts\<close> to 0, \<open>locked_until\<close> to \<open>null\<close> and \<open>last_login\<close> to the current time
  cut to the whole second.
\<close>

theorem login_success_resets_lockout:
  assumes "findByEmail d em = Some u" and "\<not> lock_active u t_check"
    and "bcrypt_compare l password (password_hash u)"
    and "DATETIME_MIN \<le> t_write" and "t_write \<le> DATETIME_MAX"
  shows "status (resp (login l ev t_check t_write d em password)) = 200
     \<and> calls (login l ev t_check t_write d em password) = [Compare, Update, Sign]
     \<and> store (login l ev t_check t_write d em password) =
         replace_user d (u\<lparr>login_attempts := 0, locked_until := None,
                            last_login := Some (t_write div 1000 * 1000)\<rparr>)
     \<and> findByEmail (store (login l ev t_check t_write d em password)) em =
         Some (u\<lparr>login_attempts := 0, locked_until := None,
                 last_login := Some (t_write div 1000 * 1000)\<rparr>)"
proof -
  let ?u = "u\<lparr>login_attempts := 0, locked_until := None,
              last_login := Some (t_write div 1000 * 1000)\<rparr>"
  have seen: "to_DATETIME t_write = Some (t_write div 1000 * 1000)"
    using assms(4,5) by (simp add: to_DATETIME_def)
  have "email u = em" using findByEmail_row [OF assms(1)] by simp
  then have "findByEmail (replace_user d ?u) em = Some ?u"
    using assms(1) by (intro findByEmail_replace_user) simp_all
  then show ?thesis
    by (simp add: login_succeeded(1,2,4) [OF assms(1-3) seen])
qed

theorem login_success_resets_lockout_witness:
  "findByEmail (run_logins sample_lib sample_env sample_db regular_email five_failures)
     regular_email =
     Some (seed_regular_user\<lparr>login_attempts := 5, locked_until := Some 905000\<rparr>)
   \<and> \<not> lock_active (seed_regular_user\<lparr>login_attempts := 5, locked_until := Some 905000\<rparr>)
          1000000
   \<and> bcrypt_compare sample_lib ''admin123!''
        (password_hash (seed_regular_user\<lparr>login_attempts := 5, locked_until := Some 905000\<rparr>))
   \<and> DATETIME_MIN \<le> 1000250 \<and> 1000250 \<le> DATETIME_MAX
   \<and> status (resp (login sample_lib sample_env 1000000 1000250
         (run_logins sample_lib sample_env sample_db regular_email five_failures)
         regular_email ''admin123!'')) = 200
   \<and> calls (login sample_lib sample_env 1000000 1000250
         (run_logins sample_lib sample_env sample_db regular_email five_failures)
         regular_email ''admin123!'') = [Compare, Update, Sign]
   \<and> findByEmail (store (login sample_lib sample_env 1000000 1000250
         (run_logins sample_lib sample_env sample_db regular_email five_failures)
         regular_email ''admin123!'')) regular_email =
       Some (seed_regular_user\<lparr>login_attempts := 0, locked_until := None,
                                last_login := Some 1000000\<rparr>)"
proof -
  let ?u = "seed_regular_user\<lparr>login_attempts := 5, locked_until := Some 905000\<rparr>"
  have nl: "\<not> lock_active ?u 1000000"
    by (simp add: lock_active_def)
  have pw: "bcrypt_compare sample_lib ''admin123!'' (password_hash ?u)"
    using sample_right_password by simp
  have lo: "DATETIME_MIN \<le> 1000250" by (simp add: DATETIME_MIN_def)
  have hi: "1000250 \<le> DATETIME_MAX" by (simp add: DATETIME_MAX_def)
  note inst = login_success_resets_lockout [OF after_five_failures nl pw lo hi, of sample_env]
  have row: "findByEmail (store (login sample_lib sample_env 1000000 1000250
         (run_logins sample_lib sample_env sample_db regular_email five_failures)
         regular_email ''admin123!'')) regular_email =
       Some (seed_regular_user\<lparr>login_attempts := 0, locked_until := None,
                                last_login := Some 1000000\<rparr>)"
    using inst [THEN conjunct2, THEN conjunct2, THEN conjunct2] by simp
  from after_five_failures nl pw lo hi inst [THEN conjunct1]
    inst [THEN conjunct2, THEN conjunct1] row
  show ?thesis by (intro conjI)
qed

subsection \<open>Lockout\<close>

text \<open>
  Claim C3, as stated, fails in two points.  The stored lock ends at the whole second of the
  current time plus the duration: after a fifth failure at 5999 ms the row holds 905000, and
  a login with the right password at 905500 ms, before the 900000 ms have elapsed, is
  accepted.  And the handler locks the account whenever the incremented counter is at least
  \<open>maxAttempts\<close>, not only when it reaches it: the counter stays at 5 when the lock expires,
  and the next failure raises it to 6 and locks the account again.
\<close>

theorem lockout_differs_from_claim:
  "maxAttempts sample_env = 5 \<and> lockoutTime sample_env = 900000
   \<and> findByEmail (run_logins sample_lib sample_env sample_db regular_email five_failures)
        regular_email =
       Some (seed_regular_user\<lparr>login_attempts := 5, locked_until := Some 905000\<rparr>)
   \<and> (905500::int) < 5999 + lockoutTime sample_env
   \<and> status (resp (login sample_lib sample_env 905500 905600
        (run_logins sample_lib sample_env sample_db regular_email five_failures)
        regular_email ''admin123!'')) = 200
   \<and> \<not> lock_active (seed_regular_user\<lparr>login_attempts := 5, locked_until := Some 905000\<rparr>)
          1000000
   \<and> status (resp (login sample_lib sample_env 1000000 1000250
        (run_logins sample_lib sample_env sample_db regular_email five_failures)
        regular_email ''wrong'')) = 401
   \<and> findByEmail (store (login sample_lib sample_env 1000000 1000250
        (run_logins sample_lib sample_env sample_db regular_email five_failures)
        regular_email ''wrong'')) regular_email =
       Some (seed_regular_user\<lparr>login_attempts := 6, locked_until := Some 1900000\<rparr>)
   \<and> (6::int) \<noteq> maxAttempts sample_env
   \<and> lock_active (seed_regular_user\<lparr>login_attempts := 6, locked_until := Some 1900000\<rparr>)
        1000250"
proof -
  let ?u = "seed_regular_user\<lparr>login_attempts := 5, locked_until := Some 905000\<rparr>"
  let ?d = "run_logins sample_lib sample_env sample_db regular_email five_failures"
  have early: "(905500::int) < 5999 + lockoutTime sample_env"
    by (simp add: sample_config)
  have open_again: "\<not> lock_active ?u 905500"
    by (simp add: lock_active_def)
  have right: "bcrypt_compare sample_lib ''admin123!'' (password_hash ?u)"
    using sample_right_password by simp
  have accepted: "status (resp (login sample_lib sample_env 905500 905600 ?d regular_email
      ''admin123!'')) = 200"
    by (rule login_succeeded(4) [OF after_five_failures open_again right sample_times(4)])
  have nl: "\<not> lock_active ?u 1000000"
    by (simp add: lock_active_def)
  have w: "\<not> bcrypt_compare sample_lib ''wrong'' (password_hash ?u)"
    using sample_wrong_password by simp
  have th: "maxAttempts sample_env \<le> login_attempts ?u + 1"
    by (simp add: sample_config)
  have lock: "to_DATETIME (1000250 + lockoutTime sample_env) = Some 1900000"
    by (simp add: sample_config sample_times)
  have s: "status (resp (login sample_lib sample_env 1000000 1000250 ?d regular_email ''wrong'')) = 401"
    unfolding login_failed_lock [OF after_five_failures nl w th lock] by simp
  have r: "findByEmail (store (login sample_lib sample_env 1000000 1000250 ?d regular_email ''wrong''))
      regular_email = Some (seed_regular_user\<lparr>login_attempts := 6, locked_until := Some 1900000\<rparr>)"
    using login_failed_lock_row [OF after_five_failures nl w th lock] by simp
  have l: "lock_active (seed_regular_user\<lparr>login_attempts := 6, locked_until := Some 1900000\<rparr>)
      1000250"
    by (simp add: lock_active_def)
  have n: "(6::int) \<noteq> maxAttempts sample_env"
    by (simp add: sample_config)
  from sample_config after_five_failures early accepted nl s r n l
  show ?thesis by (intro conjI)
qed

text \<open>
  Claim C3, amended.  While \<open>locked_until\<close> is in the future a login attempt is answered
  with 423 without a password comparison and without a change to the store.  A failed password
  comparison raises the counter by one.  When the new counter is below the threshold,
  \<open>locked_until\<close> keeps its value and the account stays open; when it is at least the
  threshold (and the new timestamp is within the range of the column), \<open>locked_until\<close>
  becomes the current time plus the duration, cut to the whole second, and the account is
  locked at exactly the times before that timestamp.  After as many consecutive failures as
  the threshold, starting from a counter of 0 and no lock, every attempt made before the
  stored timestamp is answered with 423, whatever its password.  Without configuration the
  threshold is 5 and the duration 15 minutes.
\<close>

theorem lockout_state_machine:
  assumes "findByEmail d em = Some u"
  shows "(lock_active u t_check \<longrightarrow>
            login l ev t_check t_write d em password =
              \<lparr>resp = Response 423 (message ''Account is temporarily locked''),
               store = d, calls = []\<rparr>)
       \<and> (\<not> lock_active u t_check \<and> \<not> bcrypt_compare l password (password_hash u) \<and>
          login_attempts u + 1 < maxAttempts ev \<longrightarrow>
            status (resp (login l ev t_check t_write d em password)) = 401 \<and>
            findByEmail (store (login l ev t_check t_write d em password)) em =
              Some (u\<lparr>login_attempts := login_attempts u + 1\<rparr>) \<and>
            \<not> lock_active (u\<lparr>login_attempts := login_attempts u + 1\<rparr>) t_check)
       \<and> (\<not> lock_active u t_check \<and> \<not> bcrypt_compare l password (password_hash u) \<and>
          maxAttempts ev \<le> login_attempts u + 1 \<and>
          DATETIME_MIN \<le> t_write + lockoutTime ev \<and> t_write + lockoutTime ev \<le> DATETIME_MAX \<longrightarrow>
            status (resp (login l ev t_check t_write d em password)) = 401 \<and>
            findByEmail (store (login l ev t_check t_write d em password)) em =
              Some (u\<lparr>login_attempts := login_attempts u + 1,
                      locked_until := Some ((t_write + lockoutTime ev) div 1000 * 1000)\<rparr>) \<and>
            (\<forall>t. lock_active
                   (u\<lparr>login_attempts := login_attempts u + 1,
                      locked_until := Some ((t_write + lockoutTime ev) div 1000 * 1000)\<rparr>) t
                 \<longleftrightarrow> t < (t_write + lockoutTime ev) div 1000 * 1000))
       \<and> (login_attempts u = 0 \<and> locked_until u = None \<and>
          int (length (earlier @ [(t_check, t_write, password)])) = maxAttempts ev \<and>
          (\<forall>(t0, t1, pw)\<in>set (earlier @ [(t_check, t_write, password)]).
             \<not> bcrypt_compare l pw (password_hash u)) \<and>
          DATETIME_MIN \<le> t_write + lockoutTime ev \<and> t_write + lockoutTime ev \<le> DATETIME_MAX \<longrightarrow>
            (\<forall>t t' pw'. t < (t_write + lockoutTime ev) div 1000 * 1000 \<longrightarrow>
               login l ev t t' (run_logins l ev d em (earlier @ [(t_check, t_write, password)]))
                 em pw' =
               \<lparr>resp = Response 423 (message ''Account is temporarily locked''),
                store = run_logins l ev d em (earlier @ [(t_check, t_write, password)]),
                calls = []\<rparr>))
       \<and> (MAX_LOGIN_ATTEMPTS ev = None \<longrightarrow> maxAttempts ev = 5)
       \<and> (LOCKOUT_TIME ev = None \<longrightarrow> lockoutTime ev = 15 * 60 * 1000)"
proof (intro conjI impI allI)
  assume "lock_active u t_check"
  with assms show "login l ev t_check t_write d em password =
      \<lparr>resp = Response 423 (message ''Account is temporarily locked''), store = d, calls = []\<rparr>"
    by (rule login_locked)
next
  assume h: "\<not> lock_active u t_check \<and> \<not> bcrypt_compare l password (password_hash u) \<and>
          login_attempts u + 1 < maxAttempts ev"
  note nl = h [THEN conjunct1] and w = h [THEN conjunct2, THEN conjunct1]
    and below = h [THEN conjunct2, THEN conjunct2]
  show "status (resp (login l ev t_check t_write d em password)) = 401"
    unfolding login_failed_below [OF assms nl w below] by simp
  show "findByEmail (store (login l ev t_check t_write d em password)) em =
      Some (u\<lparr>login_attempts := login_attempts u + 1\<rparr>)"
    by (rule login_failed_below_row [OF assms nl w below])
  show "\<not> lock_active (u\<lparr>login_attempts := login_attempts u + 1\<rparr>) t_check"
    using nl by (simp add: lock_active_counter)
next
  assume h: "\<not> lock_active u t_check \<and> \<not> bcrypt_compare l password (password_hash u) \<and>
          maxAttempts ev \<le> login_attempts u + 1 \<and>
          DATETIME_MIN \<le> t_write + lockoutTime ev \<and> t_write + lockoutTime ev \<le> DATETIME_MAX"
  note nl = h [THEN conjunct1] and w = h [THEN conjunct2, THEN conjunct1]
    and th = h [THEN conjunct2, THEN conjunct2, THEN conjunct1]
  have lock: "to_DATETIME (t_write + lockoutTime ev) =
      Some ((t_write + lockoutTime ev) div 1000 * 1000)"
    using h by (simp add: to_DATETIME_def)
  show "status (resp (login l ev t_check t_write d em password)) = 401"
    unfolding login_failed_lock [OF assms nl w th lock] by simp
  show "findByEmail (store (login l ev t_check t_write d em password)) em =
      Some (u\<lparr>login_attempts := login_attempts u + 1,
              locked_until := Some ((t_write + lockoutTime ev) div 1000 * 1000)\<rparr>)"
    by (rule login_failed_lock_row [OF assms nl w th lock])
  fix t
  show "lock_active
          (u\<lparr>login_attempts := login_attempts u + 1,
             locked_until := Some ((t_write + lockoutTime ev) div 1000 * 1000)\<rparr>) t
        \<longleftrightarrow> t < (t_write + lockoutTime ev) div 1000 * 1000"
    by (rule lock_active_after_lock)
next
  fix t t' pw'
  assume h: "login_attempts u = 0 \<and> locked_until u = None \<and>
          int (length (earlier @ [(t_check, t_write, password)])) = maxAttempts ev \<and>
          (\<forall>(t0, t1, pw)\<in>set (earlier @ [(t_check, t_write, password)]).
             \<not> bcrypt_compare l pw (password_hash u)) \<and>
          DATETIME_MIN \<le> t_write + lockoutTime ev \<and> t_write + lockoutTime ev \<le> DATETIME_MAX"
    and t: "t < (t_write + lockoutTime ev) div 1000 * 1000"
  have lock: "to_DATETIME (t_write + lockoutTime ev) =
      Some ((t_write + lockoutTime ev) div 1000 * 1000)"
    using h by (simp add: to_DATETIME_def)
  show "login l ev t t' (run_logins l ev d em (earlier @ [(t_check, t_write, password)])) em pw' =
      \<lparr>resp = Response 423 (message ''Account is temporarily locked''),
       store = run_logins l ev d em (earlier @ [(t_check, t_write, password)]), calls = []\<rparr>"
    by (rule locked_after_threshold_failures [OF assms h [THEN conjunct1]
          h [THEN conjunct2, THEN conjunct1] h [THEN conjunct2, THEN conjunct2, THEN conjunct1]
          h [THEN conjunct2, THEN conjunct2, THEN conjunct2, THEN conjunct1] lock t])
next
  assume "MAX_LOGIN_ATTEMPTS ev = None"
  then show "maxAttempts ev = 5" by (simp add: maxAttempts_def or_default_def)
next
  assume "LOCKOUT_TIME ev = None"
  then show "lockoutTime ev = 15 * 60 * 1000" by (simp add: lockoutTime_def or_default_def)
qed

theorem lockout_state_machine_witness:
  "findByEmail sample_db regular_email = Some seed_regular_user
   \<and> login_attempts seed_regular_user = 0 \<and> locked_until seed_regular_user = None
   \<and> int (length five_failures) = maxAttempts sample_env
   \<and> bcrypt_compare sample_lib ''admin123!'' (password_hash seed_regular_user)
   \<and> DATETIME_MIN \<le> 5999 + lockoutTime sample_env
   \<and> 5999 + lockoutTime sample_env \<le> DATETIME_MAX
   \<and> (904999::int) < (5999 + lockoutTime sample_env) div 1000 * 1000
   \<and> login sample_lib sample_env 904999 905100
        (run_logins sample_lib sample_env sample_db regular_email five_failures)
        regular_email ''admin123!'' =
       \<lparr>resp = Response 423 (message ''Account is temporarily locked''),
        store = run_logins sample_lib sample_env sample_db regular_email five_failures,
        calls = []\<rparr>
   \<and> \<not> lock_active seed_regular_user 1000
   \<and> login_attempts seed_regular_user + 1 < maxAttempts sample_env
   \<and> status (resp (login sample_lib sample_env 1000 1001 sample_db regular_email ''wrong'')) = 401
   \<and> maxAttempts sample_env \<le>
        login_attempts (seed_regular_user\<lparr>login_attempts := 5, locked_until := Some 905000\<rparr>) + 1
   \<and> findByEmail (store (login sample_lib sample_env 1000000 1000250
        (run_logins sample_lib sample_env sample_db regular_email five_failures)
        regular_email ''wrong'')) regular_email =
       Some (seed_regular_user\<lparr>login_attempts := 6, locked_until := Some 1900000\<rparr>)"
proof -
  let ?u = "seed_regular_user\<lparr>login_attempts := 5, locked_until := Some 905000\<rparr>"
  have th: "maxAttempts sample_env \<le> login_attempts ?u + 1"
    by (simp add: sample_config)
  have h3: "\<not> lock_active ?u 1000000 \<and>
      \<not> bcrypt_compare sample_lib ''wrong'' (password_hash ?u) \<and>
      maxAttempts sample_env \<le> login_attempts ?u + 1 \<and>
      DATETIME_MIN \<le> 1000250 + lockoutTime sample_env \<and>
      1000250 + lockoutTime sample_env \<le> DATETIME_MAX"
    using sample_wrong_password
    by (simp add: lock_active_def sample_config DATETIME_MIN_def DATETIME_MAX_def)
  have relock: "findByEmail (store (login sample_lib sample_env 1000000 1000250
        (run_logins sample_lib sample_env sample_db regular_email five_failures)
        regular_email ''wrong'')) regular_email =
       Some (seed_regular_user\<lparr>login_attempts := 6, locked_until := Some 1900000\<rparr>)"
    using lockout_state_machine [OF after_five_failures, where l = sample_lib
      and ev = sample_env and t_check = 1000000 and t_write = 1000250
      and password = "''wrong''",
      THEN conjunct2, THEN conjunct2, THEN conjunct1, THEN mp, OF h3,
      THEN conjunct2, THEN conjunct1]
    by (simp add: sample_config)
  have len: "int (length five_failures) = maxAttempts sample_env"
    by (simp add: five_failures_def sample_config)
  have lo: "DATETIME_MIN \<le> 5999 + lockoutTime sample_env"
    by (simp add: sample_config DATETIME_MIN_def)
  have hi: "5999 + lockoutTime sample_env \<le> DATETIME_MAX"
    by (simp add: sample_config DATETIME_MAX_def)
  have t: "(904999::int) < (5999 + lockoutTime sample_env) div 1000 * 1000"
    by (simp add: sample_config)
  have nl: "\<not> lock_active seed_regular_user 1000"
    by (simp add: lock_active_def sample_regular_user_fields)
  have below: "login_attempts seed_regular_user + 1 < maxAttempts sample_env"
    by (simp add: sample_config sample_regular_user_fields)
  have h: "login_attempts seed_regular_user = 0 \<and> locked_until seed_regular_user = None \<and>
      int (length ([(1000::int, 1001::int, ''wrong''), (2000, 2001, ''wrong''),
            (3000, 3001, ''wrong''), (4000, 4001, ''wrong'')] @ [(5000, 5999, ''wrong'')])) =
        maxAttempts sample_env \<and>
      (\<forall>(t0, t1, pw)\<in>set ([(1000::int, 1001::int, ''wrong''), (2000, 2001, ''wrong''),
            (3000, 3001, ''wrong''), (4000, 4001, ''wrong'')] @ [(5000, 5999, ''wrong'')]).
         \<not> bcrypt_compare sample_lib pw (password_hash seed_regular_user)) \<and>
      DATETIME_MIN \<le> 5999 + lockoutTime sample_env \<and>
      5999 + lockoutTime sample_env \<le> DATETIME_MAX"
    using len five_failures_all_wrong sample_regular_user_fields(1,2) lo hi
    unfolding five_failures_snoc by (intro conjI)
  note inst = lockout_state_machine [OF sample_findByEmail, where l = sample_lib
      and ev = sample_env]
  note run = inst [where t_check = 5000 and t_write = 5999 and password = "''wrong''",
      THEN conjunct2, THEN conjunct2, THEN conjunct2, THEN conjunct1, THEN mp, OF h,
      THEN spec, THEN spec, THEN spec, THEN mp, OF t, of 905100 "''admin123!''",
      folded five_failures_snoc]
  have h2: "\<not> lock_active seed_regular_user 1000 \<and>
      \<not> bcrypt_compare sample_lib ''wrong'' (password_hash seed_regular_user) \<and>
      login_attempts seed_regular_user + 1 < maxAttempts sample_env"
    using nl sample_wrong_password below by (intro conjI)
  note fail = inst [where t_check = 1000 and t_write = 1001 and password = "''wrong''",
      THEN conjunct2, THEN conjunct1, THEN mp, OF h2, THEN conjunct1]
  from sample_findByEmail sample_regular_user_fields(1,2) len
    sample_right_password lo hi t run nl below fail th relock
  show ?thesis by (intro conjI)
qed

subsection \<open>The status column\<close>

lemma findByEmail_set_status:
  "findByEmail (set_status i s d) em =
     map_option (\<lambda>u. if u_id u = i then u\<lparr>u_status := s\<rparr> else u) (findByEmail d em)"
  unfolding findByEmail_def set_status_def
  by (simp add: find_map_preserving)

lemma include_role_set_status:
  "include_role d b (u\<lparr>u_status := s'\<rparr>) = include_role d b u"
  "include_role (set_status i s d) b u = include_role d b u"
  by (simp_all add: include_role_def set_status_def cong: if_cong)

lemma include_enterprise_set_status:
  "include_enterprise d (u\<lparr>u_status := s'\<rparr>) = include_enterprise d u"
  "include_enterprise (set_status i s d) u = include_enterprise d u"
  by (simp_all add: include_enterprise_def set_status_def)

lemma session_token_status: "session_token l ev (u\<lparr>u_status := s\<rparr>) = session_token l ev u"
  by (simp add: session_token_def)

lemma lock_active_status: "lock_active (u\<lparr>u_status := s\<rparr>) t = lock_active u t"
  by (simp add: lock_active_def)

lemma apply_field_status:
  "apply_field f (u\<lparr>u_status := s\<rparr>) =
     (case apply_field f u of Inl e \<Rightarrow> Inl e | Inr x \<Rightarrow> Inr (x\<lparr>u_status := s\<rparr>))"
  by (cases f) (simp_all split: sum.splits)

lemma apply_fields_status:
  "apply_fields fs (u\<lparr>u_status := s\<rparr>) =
     (case apply_fields fs u of Inl e \<Rightarrow> Inl e | Inr x \<Rightarrow> Inr (x\<lparr>u_status := s\<rparr>))"
  by (induction fs arbitrary: u) (simp_all add: apply_field_status split: sum.splits)

lemma apply_field_u_id: "apply_field f u = Inr x \<Longrightarrow> u_id x = u_id u"
  by (cases f) (auto split: sum.splits)

lemma apply_fields_u_id: "apply_fields fs u = Inr x \<Longrightarrow> u_id x = u_id u"
proof (induction fs arbitrary: u)
  case Nil
  then show ?case by simp
next
  case (Cons f fs)
  then obtain y where y: "apply_field f u = Inr y" and x: "apply_fields fs y = Inr x"
    by (auto split: sum.splits)
  from Cons.IH [OF x] apply_field_u_id [OF y] show ?case by simp
qed

lemma replace_user_set_status_same:
  assumes "u_id x = i"
  shows "replace_user (set_status i s d) (x\<lparr>u_status := s\<rparr>) = set_status i s (replace_user d x)"
  using assms by (simp add: replace_user_def set_status_def comp_def)

lemma replace_user_set_status_other:
  assumes "u_id x \<noteq> i"
  shows "replace_user (set_status i s d) x = set_status i s (replace_user d x)"
  using assms by (simp add: replace_user_def set_status_def comp_def)

lemma update_user_set_status_same:
  assumes "u_id u = i"
  shows "update_user (set_status i s d) (u\<lparr>u_status := s\<rparr>) fs =
     (case update_user d u fs of Inl e \<Rightarrow> Inl e | Inr d' \<Rightarrow> Inr (set_status i s d'))"
proof (cases "apply_fields fs u")
  case (Inl e)
  then show ?thesis by (simp add: update_user_def apply_fields_status)
next
  case (Inr x)
  with assms have "u_id x = i" by (simp add: apply_fields_u_id)
  with Inr show ?thesis
    by (simp add: update_user_def apply_fields_status replace_user_set_status_same)
qed

lemma update_user_set_status_other:
  assumes "u_id u \<noteq> i"
  shows "update_user (set_status i s d) u fs =
     (case update_user d u fs of Inl e \<Rightarrow> Inl e | Inr d' \<Rightarrow> Inr (set_status i s d'))"
proof (cases "apply_fields fs u")
  case (Inl e)
  then show ?thesis by (simp add: update_user_def)
next
  case (Inr x)
  with assms have "u_id x \<noteq> i" by (simp add: apply_fields_u_id)
  with Inr show ?thesis
    by (simp add: update_user_def replace_user_set_status_other)
qed

lemma login_ignores_status:
  "resp (login l ev t_check t_write (set_status i s d) em password) =
     resp (login l ev t_check t_write d em password)
   \<and> calls (login l ev t_check t_write (set_status i s d) em password) =
     calls (login l ev t_check t_write d em password)
   \<and> store (login l ev t_check t_write (set_status i s d) em password) =
     set_status i s (store (login l ev t_check t_write d em password))"
proof (cases "findByEmail d em")
  case None
  then show ?thesis by (simp add: login_def findByEmail_set_status)
next
  case (Some u)
  show ?thesis
  proof (cases "u_id u = i")
    case True
    have f: "findByEmail (set_status i s d) em = Some (u\<lparr>u_status := s\<rparr>)"
      by (simp add: findByEmail_set_status Some True)
    show ?thesis
      unfolding login_def f Some
      by (simp add: Let_def lock_active_status session_token_status
          include_role_set_status include_enterprise_set_status
          update_user_set_status_same [OF True] split: sum.splits)
  next
    case False
    have f: "findByEmail (set_status i s d) em = Some u"
      by (simp add: findByEmail_set_status Some False)
    show ?thesis
      unfolding login_def f Some
      by (simp add: Let_def include_role_set_status include_enterprise_set_status
          update_user_set_status_other [OF False] split: sum.splits)
  qed
qed

lemma issued_token_verifies:
  assumes "\<forall>payload secret expiresIn.
             jwt_verify l (jwt_sign l payload secret expiresIn) secret = Inr payload"
  shows "jwt_verify l (session_token l ev u) (JWT_SECRET ev) =
           Inr \<lparr>userId = u_id u, payload_email = email u\<rparr>"
  unfolding session_token_def using assms by blast

lemma authenticateJWT_after_login:
  assumes found: "findByEmail d em = Some u" and nl: "\<not> lock_active u t_check"
    and pw: "bcrypt_compare l password (password_hash u)"
    and law: "\<forall>payload secret expiresIn.
                jwt_verify l (jwt_sign l payload secret expiresIn) secret = Inr payload"
    and seen: "to_DATETIME t_write = Some seen"
  shows "authenticateJWT l ev (store (login l ev t_check t_write d em password))
           (Some (''Bearer '' @ session_token l ev u)) =
         (if u_status u = locked then Respond (Response 423 (message ''Account is locked''))
          else if u_status u = inactive
          then Respond (Response 403 (message ''Account is inactive''))
          else Next \<lparr>user_row = u\<lparr>login_attempts := 0, locked_until := None,
                                   last_login := Some seen\<rparr>,
                      role = include_role (store (login l ev t_check t_write d em password)) True
                               (u\<lparr>login_attempts := 0, locked_until := None,
                                  last_login := Some seen\<rparr>),
                      enterprise = None\<rparr>)"
proof -
  let ?u = "u\<lparr>login_attempts := 0, locked_until := None, last_login := Some seen\<rparr>"
  have mem: "u \<in> set (users d)" using findByEmail_row [OF found] by simp
  have "findByPk (replace_user d ?u) (u_id u) = Some ?u"
    using mem by (intro findByPk_replace_user) simp_all
  then have pk: "findByPk (store (login l ev t_check t_write d em password))
      (userId \<lparr>userId = u_id u, payload_email = email u\<rparr>) = Some ?u"
    by (simp add: login_succeeded(1) [OF found nl pw seen])
  show ?thesis
    unfolding authenticateJWT_verified [OF issued_token_verifies [OF law]] pk by simp
qed

lemma takeWhile_ones:
  "takeWhile (\<lambda>x. x = CHR ''1'') (replicate k CHR ''1'' @ CHR ''.'' # em) = replicate k CHR ''1''"
  by (induction k) simp_all

lemma dropWhile_ones:
  "dropWhile (\<lambda>x. x = CHR ''1'') (replicate k CHR ''1'' @ CHR ''.'' # em) = CHR ''.'' # em"
  by (induction k) simp_all

lemma codec_roundtrip:
  "codec_verify (codec_sign payload secret expiresIn) secret = Inr payload"
  by (simp add: codec_verify_def codec_sign_def takeWhile_ones dropWhile_ones)

lemma codec_lib_law:
  "\<forall>payload secret expiresIn.
     jwt_verify codec_lib (jwt_sign codec_lib payload secret expiresIn) secret = Inr payload"
  by (simp add: codec_lib_def codec_roundtrip)

lemma suspended_findByEmail:
  "findByEmail suspended_db regular_email = Some (seed_regular_user\<lparr>u_status := inactive\<rparr>)"
  by (simp add: suspended_db_def findByEmail_set_status sample_findByEmail
      sample_regular_user_fields)

text \<open>
  Claim C10.  The login handler does not read the \<open>status\<close> column: its response and its
  calls are the same whatever the status of any user.  Let verification return the payload
  of every token the library signed with the same secret.  Then a user whose status is
  \<open>inactive\<close> or \<open>locked\<close>, with no lock in the future and the right password, receives
  200 and a session token that verifies to the user's primary key and email; the
  authentication guard then answers a request with that token with 403 or 423.
\<close>

theorem login_does_not_check_status:
  assumes "findByEmail d em = Some u" and "\<not> lock_active u t_check"
    and "bcrypt_compare l password (password_hash u)"
    and "\<forall>payload secret expiresIn.
           jwt_verify l (jwt_sign l payload secret expiresIn) secret = Inr payload"
    and "DATETIME_MIN \<le> t_write" and "t_write \<le> DATETIME_MAX"
  shows "status (resp (login l ev t_check t_write d em password)) = 200
     \<and> (\<exists>summary. body (resp (login l ev t_check t_write d em password)) =
           JObj [(''message'', JStr ''Login successful''),
                 (''token'', JStr (session_token l ev u)), (''user'', summary)])
     \<and> jwt_verify l (session_token l ev u) (JWT_SECRET ev) =
         Inr \<lparr>userId = u_id u, payload_email = email u\<rparr>
     \<and> (u_status u = locked \<longrightarrow>
           authenticateJWT l ev (store (login l ev t_check t_write d em password))
             (Some (''Bearer '' @ session_token l ev u)) =
           Respond (Response 423 (message ''Account is locked'')))
     \<and> (u_status u = inactive \<longrightarrow>
           authenticateJWT l ev (store (login l ev t_check t_write d em password))
             (Some (''Bearer '' @ session_token l ev u)) =
           Respond (Response 403 (message ''Account is inactive'')))
     \<and> (\<forall>i s. resp (login l ev t_check t_write (set_status i s d) em password) =
                 resp (login l ev t_check t_write d em password) \<and>
               calls (login l ev t_check t_write (set_status i s d) em password) =
                 calls (login l ev t_check t_write d em password))"
proof (intro conjI impI allI)
  have seen: "to_DATETIME t_write = Some (t_write div 1000 * 1000)"
    using assms(5,6) by (simp add: to_DATETIME_def)
  show "status (resp (login l ev t_check t_write d em password)) = 200"
    by (rule login_succeeded(4) [OF assms(1-3) seen])
  show "\<exists>summary. body (resp (login l ev t_check t_write d em password)) =
           JObj [(''message'', JStr ''Login successful''),
                 (''token'', JStr (session_token l ev u)), (''user'', summary)]"
    by (rule login_succeeded(3) [OF assms(1-3) seen])
  show "jwt_verify l (session_token l ev u) (JWT_SECRET ev) =
         Inr \<lparr>userId = u_id u, payload_email = email u\<rparr>"
    by (rule issued_token_verifies [OF assms(4)])
  {
    assume "u_status u = locked"
    then show "authenticateJWT l ev (store (login l ev t_check t_write d em password))
               (Some (''Bearer '' @ session_token l ev u)) =
             Respond (Response 423 (message ''Account is locked''))"
      unfolding authenticateJWT_after_login [OF assms(1-4) seen] by simp
  }
  {
    assume "u_status u = inactive"
    then show "authenticateJWT l ev (store (login l ev t_check t_write d em password))
               (Some (''Bearer '' @ session_token l ev u)) =
             Respond (Response 403 (message ''Account is inactive''))"
      unfolding authenticateJWT_after_login [OF assms(1-4) seen] by simp
  }
  fix i s
  show "resp (login l ev t_check t_write (set_status i s d) em password) =
        resp (login l ev t_check t_write d em password)"
    by (rule login_ignores_status [THEN conjunct1])
  show "calls (login l ev t_check t_write (set_status i s d) em password) =
        calls (login l ev t_check t_write d em password)"
    by (rule login_ignores_status [THEN conjunct2, THEN conjunct1])
qed

theorem login_does_not_check_status_witness:
  "findByEmail suspended_db regular_email = Some (seed_regular_user\<lparr>u_status := inactive\<rparr>)
   \<and> \<not> lock_active (seed_regular_user\<lparr>u_status := inactive\<rparr>) 1000
   \<and> bcrypt_compare codec_lib ''admin123!''
        (password_hash (seed_regular_user\<lparr>u_status := inactive\<rparr>))
   \<and> DATETIME_MIN \<le> 1001 \<and> 1001 \<le> DATETIME_MAX
   \<and> u_status (seed_regular_user\<lparr>u_status := inactive\<rparr>) = inactive
   \<and> session_token codec_lib sample_env (seed_regular_user\<lparr>u_status := inactive\<rparr>) =
       ''+1111.user@default-enterprise.com''
   \<and> status (resp (login codec_lib sample_env 1000 1001 suspended_db regular_email
         ''admin123!'')) = 200
   \<and> jwt_verify codec_lib ''+1111.user@default-enterprise.com'' (JWT_SECRET sample_env) =
       Inr \<lparr>userId = 4, payload_email = ''user@default-enterprise.com''\<rparr>
   \<and> authenticateJWT codec_lib sample_env
        (store (login codec_lib sample_env 1000 1001 suspended_db regular_email ''admin123!''))
        (Some ''Bearer +1111.user@default-enterprise.com'') =
       Respond (Response 403 (message ''Account is inactive''))"
proof -
  let ?u = "seed_regular_user\<lparr>u_status := inactive\<rparr>"
  have nl: "\<not> lock_active ?u 1000"
    by (simp add: lock_active_def sample_regular_user_fields)
  have pw: "bcrypt_compare codec_lib ''admin123!'' (password_hash ?u)"
    using sample_right_password by (simp add: codec_lib_def)
  have lo: "DATETIME_MIN \<le> 1001" by (simp add: DATETIME_MIN_def)
  have hi: "1001 \<le> DATETIME_MAX" by (simp add: DATETIME_MAX_def)
  have st: "u_status ?u = inactive" by simp
  have tok: "session_token codec_lib sample_env ?u = ''+1111.user@default-enterprise.com''"
    by (simp add: session_token_def codec_lib_def codec_sign_def sample_regular_user_fields
        regular_email_def eval_nat_numeral)
  note inst = login_does_not_check_status [OF suspended_findByEmail nl pw codec_lib_law lo hi,
      of sample_env]
  have ver: "jwt_verify codec_lib ''+1111.user@default-enterprise.com'' (JWT_SECRET sample_env) =
       Inr \<lparr>userId = 4, payload_email = ''user@default-enterprise.com''\<rparr>"
    using inst [THEN conjunct2, THEN conjunct2, THEN conjunct1]
    by (simp add: tok sample_regular_user_fields regular_email_def)
  have guard: "authenticateJWT codec_lib sample_env
        (store (login codec_lib sample_env 1000 1001 suspended_db regular_email ''admin123!''))
        (Some ''Bearer +1111.user@default-enterprise.com'') =
       Respond (Response 403 (message ''Account is inactive''))"
    using inst [THEN conjunct2, THEN conjunct2, THEN conjunct2, THEN conjunct2, THEN conjunct1,
        THEN mp, OF st]
    by (simp add: tok)
  from suspended_findByEmail nl pw lo hi st tok inst [THEN conjunct1] ver guard
  show ?thesis by (intro conjI)
qed

section \<open>Properties of the password reset handlers\<close>

lemma reset_request_unknown_email:
  assumes "findByEmail d em = None"
  shows "reset_password_request now resetToken d em =
     (Response 200 (message ''If the email exists, a reset link has been sent''), d)"
  using assms by (simp add: reset_password_request_def)

lemma reset_request_known_email:
  assumes "findByEmail d em = Some u" and "to_DATETIME (now + 3600000) = Some expires"
  shows "reset_password_request now resetToken d em =
     (Response 200 (JObj [(''message'', JStr ''Password reset token generated''),
                          (''resetToken'', JStr resetToken)]),
      replace_user d (u\<lparr>reset_password_token := Some resetToken,
                         reset_password_expires := Some expires\<rparr>))"
  using assms by (simp add: reset_password_request_def update_user_reset_request)

lemma sample_unknown_email: "findByEmail sample_db ''nobody@example.com'' = None"
  by (simp add: findByEmail_def sample_db_def seed_super_admin_def seed_manager_def
      seed_regular_user_def seed_user_def)

lemma sample_reset_expiry: "to_DATETIME (1000 + 3600000) = Some 3601000"
  by (simp add: sample_times)

text \<open>
  Claim C6 does not hold of the code.  For the email of an existing user the reset request
  answers with another message than for an unknown email, and with the generated reset
  token.
\<close>

theorem reset_request_discloses_account:
  "fst (reset_password_request 1000 sample_reset_token sample_db regular_email) =
     Response 200 (JObj [(''message'', JStr ''Password reset token generated''),
                         (''resetToken'', JStr sample_reset_token)])
   \<and> fst (reset_password_request 1000 sample_reset_token sample_db ''nobody@example.com'') =
     Response 200 (JObj [(''message'', JStr ''If the email exists, a reset link has been sent'')])
   \<and> fst (reset_password_request 1000 sample_reset_token sample_db regular_email) \<noteq>
     fst (reset_password_request 1000 sample_reset_token sample_db ''nobody@example.com'')"
  unfolding reset_request_known_email [OF sample_findByEmail sample_reset_expiry]
    reset_request_unknown_email [OF sample_unknown_email]
  by (simp add: message_def)

lemma Op_in_routes:
  "resolve auth_js_bindings ''Op'' = Inl (ReferenceError ''Op'')"
  "resolve roles_js_bindings ''Op'' = Inr ()"
  by (simp_all add: resolve_def auth_js_bindings_def roles_js_bindings_def)

lemma reset_confirm_throws:
  "reset_password_confirm l ev now d token password =
     (Response 500 (message ''Internal server error''), d)"
  by (simp add: reset_password_confirm_def reset_password_confirm_in_def resolve_def
      auth_js_bindings_def)

lemma reset_confirm_where_Op_is_bound:
  assumes "''Op'' \<in> set bindings"
  shows "(find (reset_token_valid token now) (users d) = None \<longrightarrow>
            reset_password_confirm_in bindings l ev now d token password =
              (Response 400 (message ''Invalid or expired reset token''), d))
       \<and> (\<forall>u. find (reset_token_valid token now) (users d) = Some u \<longrightarrow>
            reset_password_confirm_in bindings l ev now d token password =
              (Response 200 (message ''Password reset successful''),
               replace_user d (u\<lparr>password_hash := bcrypt_hash l password
                                     (or_default (BCRYPT_ROUNDS ev) 12),
                                  reset_password_token := None,
                                  reset_password_expires := None,
                                  login_attempts := 0,
                                  locked_until := None\<rparr>)))"
  using assms
  by (simp add: reset_password_confirm_in_def resolve_def update_user_reset_confirm)

lemma pending_reset_row:
  "findByEmail pending_reset_db regular_email =
     Some (seed_regular_user\<lparr>reset_password_token := Some sample_reset_token,
                              reset_password_expires := Some 3601000\<rparr>)"
  unfolding pending_reset_db_def
    reset_request_known_email [OF sample_findByEmail sample_reset_expiry]
  using sample_findByEmail
  by (simp add: findByEmail_replace_user sample_regular_user_fields)

text \<open>
  Claim C4 does not hold of the code.  routes/auth.js does not import \<open>Op\<close>, so the
  confirm handler throws before it queries the store and answers 500 to every request: also
  to one that supplies the stored token before its expiry.  In a module that binds \<open>Op\<close>
  the same handler body answers 400 when no row has the token with an expiry in the future,
  and otherwise stores the new hash, clears the token and its expiry and resets the lockout
  (\<open>reset_confirm_where_Op_is_bound\<close>).
\<close>

theorem reset_confirm_rejects_valid_token:
  "findByEmail pending_reset_db regular_email =
     Some (seed_regular_user\<lparr>reset_password_token := Some sample_reset_token,
                              reset_password_expires := Some 3601000\<rparr>)
   \<and> reset_token_valid sample_reset_token 2000
        (seed_regular_user\<lparr>reset_password_token := Some sample_reset_token,
                             reset_password_expires := Some 3601000\<rparr>)
   \<and> reset_password_confirm sample_lib sample_env 2000 pending_reset_db sample_reset_token
        ''N3w-Passw0rd!'' =
       (Response 500 (message ''Internal server error''), pending_reset_db)"
proof -
  have v: "reset_token_valid sample_reset_token 2000
      (seed_regular_user\<lparr>reset_password_token := Some sample_reset_token,
                           reset_password_expires := Some 3601000\<rparr>)"
    by (simp add: reset_token_valid_def)
  from pending_reset_row v reset_confirm_throws show ?thesis by (intro conjI)
qed

section \<open>Properties of the permission replacement\<close>

lemma permissions_of_destroyed:
  "filter (\<lambda>p. rp_role_id p = rid) (destroy_permissions rid table) = []"
  by (simp add: destroy_permissions_def)

lemma permissions_of_destroyed_other:
  assumes "other \<noteq> rid"
  shows "filter (\<lambda>p. rp_role_id p = other) (destroy_permissions rid table) =
         filter (\<lambda>p. rp_role_id p = other) table"
  using assms by (induction table) (simp_all add: destroy_permissions_def)

lemma filter_new_rows:
  "filter (\<lambda>p. rp_role_id p = rid) (map (\<lambda>perm. perm\<lparr>rp_role_id := rid\<rparr>) ps) =
     map (\<lambda>perm. perm\<lparr>rp_role_id := rid\<rparr>) ps"
  by (induction ps) simp_all

lemma filter_new_rows_other:
  assumes "other \<noteq> rid"
  shows "filter (\<lambda>p. rp_role_id p = other) (map (\<lambda>perm. perm\<lparr>rp_role_id := rid\<rparr>) ps) = []"
  using assms by (induction ps) simp_all

lemma bulkCreate_appends: "bulkCreate rows table = Inr table' \<Longrightarrow> table' = table @ rows"
  by (simp add: bulkCreate_def split: if_splits)

lemma update_role_permissions_not_found:
  assumes "find (\<lambda>r. r_id r = rid) (roles d) = None"
  shows "update_role_permissions d rid perms = (Response 404 (message ''Role not found''), d)"
  using assms by (simp add: update_role_permissions_def)

lemma update_role_permissions_system_role:
  assumes "find (\<lambda>r. r_id r = rid) (roles d) = Some r" and "is_system_role r"
  shows "update_role_permissions d rid perms =
     (Response 403 (message ''Cannot modify system role permissions''), d)"
  using assms by (simp add: update_role_permissions_def)

lemma update_role_permissions_no_array:
  assumes "find (\<lambda>r. r_id r = rid) (roles d) = Some r" and "\<not> is_system_role r"
  shows "status (fst (update_role_permissions d rid None)) = 200 \<and>
         snd (update_role_permissions d rid None) =
           d\<lparr>role_permissions := destroy_permissions rid (role_permissions d)\<rparr>"
proof -
  have "r_id r = rid" using find_Some_row [OF assms(1)] by simp
  with assms show ?thesis by (simp add: update_role_permissions_def Let_def)
qed

lemma update_role_permissions_insert_failed:
  assumes "find (\<lambda>r. r_id r = rid) (roles d) = Some r" and "\<not> is_system_role r"
    and "bulkCreate (map (\<lambda>perm. perm\<lparr>rp_role_id := rid\<rparr>) ps)
           (destroy_permissions rid (role_permissions d)) = Inl e"
  shows "update_role_permissions d rid (Some ps) =
     (Response 500 (message ''Internal server error''),
      d\<lparr>role_permissions := destroy_permissions rid (role_permissions d)\<rparr>)"
proof -
  have "r_id r = rid" using find_Some_row [OF assms(1)] by simp
  with assms show ?thesis by (simp add: update_role_permissions_def Let_def)
qed

lemma update_role_permissions_inserted:
  assumes "find (\<lambda>r. r_id r = rid) (roles d) = Some r" and "\<not> is_system_role r"
    and "bulkCreate (map (\<lambda>perm. perm\<lparr>rp_role_id := rid\<rparr>) ps)
           (destroy_permissions rid (role_permissions d)) = Inr table"
  shows "status (fst (update_role_permissions d rid (Some ps))) = 200 \<and>
         snd (update_role_permissions d rid (Some ps)) =
           d\<lparr>role_permissions := destroy_permissions rid (role_permissions d) @
                                    map (\<lambda>perm. perm\<lparr>rp_role_id := rid\<rparr>) ps\<rparr>"
proof -
  have "r_id r = rid" using find_Some_row [OF assms(1)] by simp
  moreover have "table = destroy_permissions rid (role_permissions d) @
      map (\<lambda>perm. perm\<lparr>rp_role_id := rid\<rparr>) ps"
    using assms(3) by (rule bulkCreate_appends)
  ultimately show ?thesis using assms by (simp add: update_role_permissions_def Let_def)
qed

lemma sample_manager_role:
  "find (\<lambda>r. r_id r = 3) (roles sample_db) = Some seed_manager_role"
  "\<not> is_system_role seed_manager_role"
  by (simp_all add: sample_db_def seed_super_admin_role_def seed_admin_role_def
      seed_manager_role_def)

lemma sample_manager_rows:
  "permissions_of sample_db 3 =
     [manager_permission ''dashboard'', manager_permission ''employees'',
      manager_permission ''products'', manager_permission ''reports'']"
  "destroy_permissions 3 (role_permissions sample_db) = [seed_user_dashboard]"
  by (simp_all add: permissions_of_def destroy_permissions_def sample_db_def
      manager_permission_def seed_user_dashboard_def)

lemma duplicate_rows_rejected:
  "bulkCreate (map (\<lambda>perm. perm\<lparr>rp_role_id := 3\<rparr>) duplicate_rows) [seed_user_dashboard] =
     Inl UniqueConstraintError"
  by (simp add: bulkCreate_def duplicate_rows_def users_read_only_def seed_user_dashboard_def
      MODULES_def)

lemma read_only_rows_accepted:
  "bulkCreate (map (\<lambda>perm. perm\<lparr>rp_role_id := 3\<rparr>) read_only_rows) [seed_user_dashboard] =
     Inr ([seed_user_dashboard] @ map (\<lambda>perm. perm\<lparr>rp_role_id := 3\<rparr>) read_only_rows)"
  by (simp add: bulkCreate_def read_only_rows_def users_read_only_def seed_user_dashboard_def
      MODULES_def)

lemma sample_insert_failed:
  "update_role_permissions sample_db 3 (Some duplicate_rows) =
     (Response 500 (message ''Internal server error''),
      sample_db\<lparr>role_permissions := [seed_user_dashboard]\<rparr>)"
proof -
  have "bulkCreate (map (\<lambda>perm. perm\<lparr>rp_role_id := 3\<rparr>) duplicate_rows)
      (destroy_permissions 3 (role_permissions sample_db)) = Inl UniqueConstraintError"
    by (simp only: sample_manager_rows(2) duplicate_rows_rejected)
  from update_role_permissions_insert_failed [OF sample_manager_role this]
  show ?thesis by (simp only: sample_manager_rows(2))
qed

text \<open>
  Claim C5, as stated, fails: the rows are deleted before the insert is attempted, outside
  any transaction.  A permission list that names a module twice violates the unique index;
  the handler answers 500 and the manager role is left with no permission row, neither its
  previous four rows nor the two submitted ones.
\<close>

theorem failed_replacement_leaves_no_permissions:
  "permissions_of sample_db 3 =
     [manager_permission ''dashboard'', manager_permission ''employees'',
      manager_permission ''products'', manager_permission ''reports'']
   \<and> fst (update_role_permissions sample_db 3 (Some duplicate_rows)) =
       Response 500 (message ''Internal server error'')
   \<and> permissions_of (snd (update_role_permissions sample_db 3 (Some duplicate_rows))) 3 = []
   \<and> permissions_of (snd (update_role_permissions sample_db 3 (Some duplicate_rows))) 3 \<noteq>
       permissions_of sample_db 3
   \<and> permissions_of (snd (update_role_permissions sample_db 3 (Some duplicate_rows))) 3 \<noteq>
       [users_read_only\<lparr>rp_role_id := 3\<rparr>,
        users_read_only\<lparr>can_update := True, rp_role_id := 3\<rparr>]"
proof -
  have e: "permissions_of (snd (update_role_permissions sample_db 3 (Some duplicate_rows))) 3 = []"
    unfolding sample_insert_failed
    by (simp add: permissions_of_def seed_user_dashboard_def)
  show ?thesis
    unfolding e by (simp add: sample_manager_rows(1) sample_insert_failed)
qed

text \<open>
  Claim C5, amended.  The handler answers 200, 403, 404 or 500.  After a 200 the role's
  stored rows are exactly the submitted ones; after a 500 (the insert failed) the role has
  no rows; after a 403 or 404 the store is unchanged.  The role's rows are never a mixture
  of previous and submitted rows, and the rows of other roles are never changed.
\<close>

theorem permission_replacement_outcomes:
  "status (fst (update_role_permissions d rid perms)) \<in> {200, 403, 404, 500}
   \<and> (status (fst (update_role_permissions d rid perms)) = 200 \<longrightarrow>
        permissions_of (snd (update_role_permissions d rid perms)) rid =
          map (\<lambda>perm. perm\<lparr>rp_role_id := rid\<rparr>) (or_empty perms))
   \<and> (status (fst (update_role_permissions d rid perms)) = 500 \<longrightarrow>
        permissions_of (snd (update_role_permissions d rid perms)) rid = [])
   \<and> (status (fst (update_role_permissions d rid perms)) = 403 \<or>
      status (fst (update_role_permissions d rid perms)) = 404 \<longrightarrow>
        snd (update_role_permissions d rid perms) = d)
   \<and> (\<forall>other. other \<noteq> rid \<longrightarrow>
        permissions_of (snd (update_role_permissions d rid perms)) other =
          permissions_of d other)"
proof (cases "find (\<lambda>r. r_id r = rid) (roles d)")
  case None
  show ?thesis
    unfolding update_role_permissions_not_found [OF None] by simp
next
  case (Some r)
  show ?thesis
  proof (cases "is_system_role r")
    case True
    show ?thesis
      unfolding update_role_permissions_system_role [OF Some True] by simp
  next
    case False
    show ?thesis
    proof (cases perms)
      case None
      note r = update_role_permissions_no_array [OF Some False]
      show ?thesis
        unfolding None using r
        by (simp add: permissions_of_def permissions_of_destroyed
            permissions_of_destroyed_other or_empty_def)
    next
      case ps: (Some ps)
      show ?thesis
      proof (cases "bulkCreate (map (\<lambda>perm. perm\<lparr>rp_role_id := rid\<rparr>) ps)
                      (destroy_permissions rid (role_permissions d))")
        case (Inl e)
        show ?thesis
          unfolding ps update_role_permissions_insert_failed [OF Some False Inl]
          by (simp add: permissions_of_def permissions_of_destroyed
              permissions_of_destroyed_other)
      next
        case (Inr table)
        note r = update_role_permissions_inserted [OF Some False Inr]
        show ?thesis
          unfolding ps using r
          by (simp add: permissions_of_def permissions_of_destroyed
              permissions_of_destroyed_other filter_new_rows filter_new_rows_other
              or_empty_def)
      qed
    qed
  qed
qed

theorem permission_replacement_outcomes_witness:
  "status (fst (update_role_permissions sample_db 3 (Some read_only_rows))) = 200
   \<and> permissions_of (snd (update_role_permissions sample_db 3 (Some read_only_rows))) 3 =
       map (\<lambda>perm. perm\<lparr>rp_role_id := 3\<rparr>) (or_empty (Some read_only_rows))
   \<and> status (fst (update_role_permissions sample_db 3 (Some duplicate_rows))) = 500
   \<and> permissions_of (snd (update_role_permissions sample_db 3 (Some duplicate_rows))) 3 = []
   \<and> status (fst (update_role_permissions sample_db 1 (Some read_only_rows))) = 403
   \<and> snd (update_role_permissions sample_db 1 (Some read_only_rows)) = sample_db
   \<and> (4::int) \<noteq> 3
   \<and> permissions_of (snd (update_role_permissions sample_db 3 (Some duplicate_rows))) 4 =
       permissions_of sample_db 4"
proof -
  have ok: "bulkCreate (map (\<lambda>perm. perm\<lparr>rp_role_id := 3\<rparr>) read_only_rows)
      (destroy_permissions 3 (role_permissions sample_db)) =
      Inr ([seed_user_dashboard] @ map (\<lambda>perm. perm\<lparr>rp_role_id := 3\<rparr>) read_only_rows)"
    by (simp only: sample_manager_rows(2) read_only_rows_accepted)
  have s200: "status (fst (update_role_permissions sample_db 3 (Some read_only_rows))) = 200"
    using update_role_permissions_inserted [OF sample_manager_role ok] by simp
  have s500: "status (fst (update_role_permissions sample_db 3 (Some duplicate_rows))) = 500"
    by (simp add: sample_insert_failed)
  have sys: "find (\<lambda>r. r_id r = 1) (roles sample_db) = Some seed_super_admin_role"
      "is_system_role seed_super_admin_role"
    by (simp_all add: sample_db_def seed_super_admin_role_def)
  have s403: "status (fst (update_role_permissions sample_db 1 (Some read_only_rows))) = 403"
    by (simp add: update_role_permissions_system_role [OF sys])
  have s403': "status (fst (update_role_permissions sample_db 1 (Some read_only_rows))) = 403 \<or>
      status (fst (update_role_permissions sample_db 1 (Some read_only_rows))) = 404"
    using s403 by simp
  have ne: "(4::int) \<noteq> 3" by simp
  note good = permission_replacement_outcomes [of sample_db 3 "Some read_only_rows"]
  note bad = permission_replacement_outcomes [of sample_db 3 "Some duplicate_rows"]
  note refused = permission_replacement_outcomes [of sample_db 1 "Some read_only_rows"]
  from s200 good [THEN conjunct2, THEN conjunct1, THEN mp, OF s200]
    s500 bad [THEN conjunct2, THEN conjunct2, THEN conjunct1, THEN mp, OF s500]
    s403 refused [THEN conjunct2, THEN conjunct2, THEN conjunct2, THEN conjunct1, THEN mp, OF s403']
    ne bad [THEN conjunct2, THEN conjunct2, THEN conjunct2, THEN conjunct2, THEN spec, THEN mp, OF ne]
  show ?thesis by (intro conjI)
qed

end
